theory Spec2Isabelle
  imports Main "HOL-Library.Sublist"
begin

section \<open>JavaScript values as the parsers see them\<close>

text \<open>
  The parsers of \<^verbatim>\<open>src/utils/parser.ts\<close> work on the untyped tree that the XML decoder
  returns and on the objects of the iCalendar libraries. A value is one of JavaScript's
  primitives, an array, or an object with its own properties in order. \<open>JLib s\<close> stands
  for an object of a library class (an \<^verbatim>\<open>ICAL.Duration\<close>, an \<^verbatim>\<open>ICAL.Time\<close>, an
  \<^verbatim>\<open>RRule\<close>) of which the code only ever takes \<^verbatim>\<open>toString()\<close>, which yields \<open>s\<close>.
  Numbers are the integers (the decoder turns numeric text into a number); strings are
  lists of \<open>char\<close>, the bytes of the text.
\<close>

datatype jsval =
    JUndefined
  | JNull
  | JBool bool
  | JNum int
  | JStr string
  | JArr "jsval list"
  | JObj "(string \<times> jsval) list"
  | JLib string

datatype error =
    TypeError
  | Thrown string

text \<open>Truthiness, as \<^verbatim>\<open>if (v)\<close>, \<^verbatim>\<open>!v\<close>, \<^verbatim>\<open>a || b\<close> and \<^verbatim>\<open>c ? a : b\<close> test it.\<close>

fun truthy :: "jsval \<Rightarrow> bool" where
  "truthy JUndefined = False"
| "truthy JNull = False"
| "truthy (JBool b) = b"
| "truthy (JNum n) = (n \<noteq> 0)"
| "truthy (JStr s) = (s \<noteq> [])"
| "truthy (JArr xs) = True"
| "truthy (JObj kvs) = True"
| "truthy (JLib s) = True"

fun nullish :: "jsval \<Rightarrow> bool" where
  "nullish JUndefined = True"
| "nullish JNull = True"
| "nullish v = False"

fun isArray :: "jsval \<Rightarrow> bool" where
  "isArray (JArr xs) = True"
| "isArray v = False"

fun is_string :: "jsval \<Rightarrow> bool" where
  "is_string (JStr s) = True"
| "is_string v = False"

text \<open>\<^verbatim>\<open>a || b\<close> on values.\<close>

definition js_or :: "jsval \<Rightarrow> jsval \<Rightarrow> jsval" where
  "js_or a b = (if truthy a then a else b)"

text \<open>
  \<^verbatim>\<open>v[k]\<close>: a property read. On \<^verbatim>\<open>undefined\<close> and \<^verbatim>\<open>null\<close> it throws a TypeError; on an
  object it is the own property or \<^verbatim>\<open>undefined\<close>; on every other value it is
  \<^verbatim>\<open>undefined\<close> for the keys the parsers read (none of them is a member of a prototype).
\<close>

fun js_get :: "jsval \<Rightarrow> string \<Rightarrow> error + jsval" where
  "js_get JUndefined k = Inl TypeError"
| "js_get JNull k = Inl TypeError"
| "js_get (JObj kvs) k = Inr (case map_of kvs k of Some v \<Rightarrow> v | None \<Rightarrow> JUndefined)"
| "js_get v k = Inr JUndefined"

text \<open>\<^verbatim>\<open>v?.[k]\<close>: the optional chain stops at \<^verbatim>\<open>undefined\<close> and \<^verbatim>\<open>null\<close>.\<close>

definition js_get_opt :: "jsval \<Rightarrow> string \<Rightarrow> jsval" where
  "js_get_opt v k = (case js_get v k of Inl e \<Rightarrow> JUndefined | Inr w \<Rightarrow> w)"

text \<open>\<^verbatim>\<open>Array.isArray(v) ? v : [v]\<close>.\<close>

fun as_array :: "jsval \<Rightarrow> jsval list" where
  "as_array (JArr xs) = xs"
| "as_array v = [v]"

subsection \<open>Strings\<close>

text \<open>\<^verbatim>\<open>s.includes(p)\<close>: \<open>p\<close> occurs in \<open>s\<close> as a contiguous run.\<close>

fun includes_str :: "string \<Rightarrow> string \<Rightarrow> bool" where
  "includes_str [] p = (p = [])"
| "includes_str (c # cs) p = (prefix p (c # cs) \<or> includes_str cs p)"

text \<open>
  \<^verbatim>\<open>s.replace(/&#13;/g, "\r\n")\<close>: every occurrence of the five characters, from the left,
  becomes a carriage return and a line feed.
\<close>

function replace_cr_entity :: "string \<Rightarrow> string" where
  "replace_cr_entity s =
     (if s = [] then []
      else if take 5 s = ''&#13;'' then char_of (13::nat) # char_of (10::nat) # replace_cr_entity (drop 5 s)
      else hd s # replace_cr_entity (tl s))"
  by pat_completeness auto
termination
  by (relation "measure length") auto

declare replace_cr_entity.simps [simp del]

text \<open>Decimal digits of a number, for \<^verbatim>\<open>toString()\<close>.\<close>

function digits :: "nat \<Rightarrow> string" where
  "digits n = (if n < 10 then [char_of (48 + n)] else digits (n div 10) @ [char_of (48 + n mod 10)])"
  by pat_completeness auto
termination
  by (relation "measure id") auto

declare digits.simps [simp del]

definition int_toString :: "int \<Rightarrow> string" where
  "int_toString i = (if i < 0 then CHR ''-'' # digits (nat (- i)) else digits (nat i))"

fun join_comma :: "string list \<Rightarrow> string" where
  "join_comma [] = []"
| "join_comma [s] = s"
| "join_comma (s # t # ss) = s @ '','' @ join_comma (t # ss)"

text \<open>
  \<^verbatim>\<open>v.toString()\<close> on a value that is not \<^verbatim>\<open>undefined\<close> or \<^verbatim>\<open>null\<close>: a string is itself,
  an array joins its elements with commas (an \<^verbatim>\<open>undefined\<close> or \<^verbatim>\<open>null\<close> element is the
  empty string), a plain object is \<^verbatim>\<open>[object Object]\<close>.
\<close>

fun js_toString :: "jsval \<Rightarrow> string" where
  "js_toString JUndefined = []"
| "js_toString JNull = []"
| "js_toString (JBool b) = (if b then ''true'' else ''false'')"
| "js_toString (JNum n) = int_toString n"
| "js_toString (JStr s) = s"
| "js_toString (JArr xs) = join_comma (map js_toString xs)"
| "js_toString (JObj kvs) = ''[object Object]''"
| "js_toString (JLib s) = s"

text \<open>\<^verbatim>\<open>v?.toString()\<close>.\<close>

definition toString_opt :: "jsval \<Rightarrow> jsval" where
  "toString_opt v = (if nullish v then JUndefined else JStr (js_toString v))"

section \<open>The change detector\<close>

text \<open>
  Only the result type \<^verbatim>\<open>SyncChangesResult\<close> and \<^verbatim>\<open>EventRef\<close> are declared in the
  models; the detector itself follows the algorithm of the specification.
\<close>

record EventRef =
  ref_href :: string
  ref_etag :: string

record SyncChangesResult =
  changed :: bool
  newCtag :: string
  newEvents :: "string list"
  updatedEvents :: "string list"
  deletedEvents :: "string list"

text \<open>
  Modelled from the spec: the hrefs of a list of references, each once, in the order
  first met (section 4.4, step 3); the detector's code is not among the sources.
\<close>

primrec keep_first :: "'a list \<Rightarrow> 'a list" where
  "keep_first [] = []"
| "keep_first (x # xs) = x # filter (\<lambda>y. y \<noteq> x) (keep_first xs)"

text \<open>
  Modelled from the spec: the index of a list of references by href (section 4.4,
  step 2); the detector's code is not among the sources.
\<close>

definition index_by_href :: "EventRef list \<Rightarrow> (string \<rightharpoonup> string)" where
  "index_by_href refs = map_of (map (\<lambda>r. (ref_href r, ref_etag r)) refs)"

text \<open>
  Modelled from the spec: the change detector (section 4.4), whose code is not among the
  sources. Equal change tags return the unchanged result at once; otherwise both lists
  are indexed by href and every href is classified as new, updated or deleted.
\<close>

definition detectChanges ::
  "string \<Rightarrow> EventRef list \<Rightarrow> string \<Rightarrow> EventRef list \<Rightarrow> SyncChangesResult" where
  "detectChanges prevCtag prevRefs currCtag currRefs =
     (if prevCtag = currCtag then
        \<lparr>changed = False, newCtag = currCtag, newEvents = [], updatedEvents = [],
         deletedEvents = []\<rparr>
      else
        (let prev = index_by_href prevRefs;
             curr = index_by_href currRefs;
             currHrefs = keep_first (map ref_href currRefs);
             prevHrefs = keep_first (map ref_href prevRefs)
         in \<lparr>changed = True, newCtag = currCtag,
             newEvents = filter (\<lambda>h. prev h = None) currHrefs,
             updatedEvents = filter (\<lambda>h. prev h \<noteq> None \<and> prev h \<noteq> curr h) currHrefs,
             deletedEvents = filter (\<lambda>h. curr h = None) prevHrefs\<rparr>))"

section \<open>The libraries, as the parsers call them\<close>

text \<open>
  The XML decoder (\<^verbatim>\<open>fast-xml-parser\<close>) and the URL constructor are outside the
  repository: they are parameters of the model. \<open>XMLParser_parse\<close> is
  \<^verbatim>\<open>new XMLParser(options).parse(text)\<close>, which returns the decoded tree or throws;
  \<open>new_URL\<close> is \<^verbatim>\<open>new URL(href, base).toString()\<close>, which throws on an invalid URL.
  \<open>toLowerCase\<close> is \<^verbatim>\<open>String.prototype.toLowerCase\<close> of the runtime: it follows the case
  mappings of Unicode (the Kelvin sign becomes \<^verbatim>\<open>k\<close>), which the model does not fix, so
  it is a parameter too.
\<close>

record xml_options =
  removeNSPrefix :: "bool option"
  ignoreAttributes :: "bool option"
  attributeNamePrefix :: "string option"

record web_libs =
  XMLParser_parse :: "xml_options \<Rightarrow> string \<Rightarrow> error + jsval"
  new_URL :: "jsval \<Rightarrow> string \<Rightarrow> error + string"
  toLowerCase :: "string \<Rightarrow> string"

text \<open>
  \<^verbatim>\<open>baseUrl ? new URL(x["href"], baseUrl).toString() : x["href"]\<close>, for the optional
  parameter \<^verbatim>\<open>baseUrl?: string\<close>.
\<close>

definition resolve_href :: "web_libs \<Rightarrow> string option \<Rightarrow> jsval \<Rightarrow> error + jsval" where
  "resolve_href W baseUrl x =
     (case js_get x ''href'' of
        Inl e \<Rightarrow> Inl e
      | Inr h \<Rightarrow>
          (case baseUrl of
             None \<Rightarrow> Inr h
           | Some b \<Rightarrow>
               if b = [] then Inr h
               else (case new_URL W h b of Inl e \<Rightarrow> Inl e | Inr u \<Rightarrow> Inr (JStr u))))"

section \<open>parseCalendars\<close>

text \<open>
  The function has the same text in both variants of the parser
  (\<^verbatim>\<open>src/utils/parser.ts\<close>, lines 50 to 112, and lines 10 to 72 of the variant built on
  \<^verbatim>\<open>node-ical\<close>). It is \<^verbatim>\<open>async\<close>, as \<^verbatim>\<open>parseEvents\<close> is: an exception that leaves it
  rejects the promise it returns, and \<open>Inl e\<close> stands for that.
\<close>

record Calendar =
  displayName :: jsval
  url :: jsval
  ctag :: jsval
  supportedComponents :: "jsval list"

text \<open>
  \<^verbatim>\<open>propstats.find(p => typeof p["status"] === "string" &&
  p["status"].toLowerCase().includes("200 ok"))\<close>: the first such element, or
  \<^verbatim>\<open>undefined\<close>; reading \<^verbatim>\<open>status\<close> of an \<^verbatim>\<open>undefined\<close> element throws.
\<close>

fun find_okPropstat :: "web_libs \<Rightarrow> jsval list \<Rightarrow> error + jsval" where
  "find_okPropstat W [] = Inr JUndefined"
| "find_okPropstat W (p # ps) =
     (case js_get p ''status'' of
        Inl e \<Rightarrow> Inl e
      | Inr (JStr s) \<Rightarrow>
          if includes_str (toLowerCase W s) ''200 ok'' then Inr p else find_okPropstat W ps
      | Inr v \<Rightarrow> find_okPropstat W ps)"

text \<open>\<^verbatim>\<open>compArray.map((c) => c.name)\<close>.\<close>

fun comp_names :: "jsval list \<Rightarrow> error + jsval list" where
  "comp_names [] = Inr []"
| "comp_names (c # cs) =
     (case js_get c ''name'' of
        Inl e \<Rightarrow> Inl e
      | Inr n \<Rightarrow> (case comp_names cs of Inl e \<Rightarrow> Inl e | Inr ns \<Rightarrow> Inr (n # ns)))"

definition known_components :: "jsval list" where
  "known_components =
     [JStr ''VEVENT'', JStr ''VTODO'', JStr ''VJOURNAL'', JStr ''VFREEBUSY'',
      JStr ''VTIMEZONE'', JStr ''VAVAILABILITY'']"

text \<open>
  \<^verbatim>\<open>Array.isArray(compData) ? compData : compData ? [compData] : []\<close>.
\<close>

definition compArray :: "jsval \<Rightarrow> jsval list" where
  "compArray compData =
     (if isArray compData then as_array compData
      else if truthy compData then [compData] else [])"

text \<open>
  Lines 66 to 77: the \<^verbatim>\<open>prop\<close> of the first propstat with status 200 OK; \<open>Inr None\<close>
  when there is no such propstat (\<^verbatim>\<open>continue\<close>).
\<close>

definition selected_prop :: "web_libs \<Rightarrow> jsval \<Rightarrow> error + jsval option" where
  "selected_prop W res =
     (case js_get res ''propstat'' of
        Inl e \<Rightarrow> Inl e
      | Inr ps \<Rightarrow>
     (case find_okPropstat W (as_array ps) of
        Inl e \<Rightarrow> Inl e
      | Inr okPropstat \<Rightarrow>
          if \<not> truthy okPropstat then Inr None
          else (case js_get okPropstat ''prop'' of Inl e \<Rightarrow> Inl e | Inr prop \<Rightarrow> Inr (Some prop))))"

text \<open>
  Lines 78 to 98: the names of the \<^verbatim>\<open>comp\<close> children of
  \<^verbatim>\<open>supported-calendar-component-set\<close>, and those of them that are known components.
\<close>

definition comp_names_of :: "jsval \<Rightarrow> error + jsval list" where
  "comp_names_of prop =
     comp_names
       (compArray (js_get_opt (js_get_opt prop ''supported-calendar-component-set'') ''comp''))"

definition supported_of :: "jsval list \<Rightarrow> jsval list" where
  "supported_of names = filter (\<lambda>name. name \<in> set known_components) names"

text \<open>
  The body of the loop over the response records: \<open>Inr None\<close> is \<^verbatim>\<open>continue\<close>,
  \<open>Inr (Some c)\<close> is \<^verbatim>\<open>calendars.push(c)\<close>, \<open>Inl e\<close> an exception, which nothing catches.
\<close>

definition calendar_of_response ::
  "web_libs \<Rightarrow> string option \<Rightarrow> jsval \<Rightarrow> error + Calendar option" where
  "calendar_of_response W baseUrl res =
     (case selected_prop W res of
        Inl e \<Rightarrow> Inl e
      | Inr None \<Rightarrow> Inr None
      | Inr (Some prop) \<Rightarrow>
     (case comp_names_of prop of
        Inl e \<Rightarrow> Inl e
      | Inr names \<Rightarrow>
          if JStr ''VEVENT'' \<notin> set (supported_of names) then Inr None
          else
     (case js_get prop ''displayname'' of
        Inl e \<Rightarrow> Inl e
      | Inr dn \<Rightarrow>
     (case resolve_href W baseUrl res of
        Inl e \<Rightarrow> Inl e
      | Inr u \<Rightarrow>
     (case js_get prop ''getctag'' of
        Inl e \<Rightarrow> Inl e
      | Inr ct \<Rightarrow>
          Inr (Some \<lparr>displayName = (if nullish dn then JStr [] else dn), url = u, ctag = ct,
                     supportedComponents = supported_of names\<rparr>))))))"

fun calendars_loop ::
  "(jsval \<Rightarrow> error + Calendar option) \<Rightarrow> jsval list \<Rightarrow> Calendar list \<Rightarrow> error + Calendar list" where
  "calendars_loop f [] calendars = Inr calendars"
| "calendars_loop f (res # rest) calendars =
     (case f res of
        Inl e \<Rightarrow> Inl e
      | Inr None \<Rightarrow> calendars_loop f rest calendars
      | Inr (Some c) \<Rightarrow> calendars_loop f rest (calendars @ [c]))"

text \<open>The options of the decoder, line 56 to 60.\<close>

definition calendar_xml_options :: xml_options where
  "calendar_xml_options =
     \<lparr>removeNSPrefix = Some True, ignoreAttributes = Some False, attributeNamePrefix = Some []\<rparr>"

definition parseCalendars :: "web_libs \<Rightarrow> string \<Rightarrow> string option \<Rightarrow> error + Calendar list" where
  "parseCalendars W responseData baseUrl =
     (case XMLParser_parse W calendar_xml_options responseData of
        Inl e \<Rightarrow> Inl e
      | Inr jsonData \<Rightarrow>
     (case js_get jsonData ''multistatus'' of
        Inl e \<Rightarrow> Inl e
      | Inr ms \<Rightarrow>
     (case js_get ms ''response'' of
        Inl e \<Rightarrow> Inl e
      | Inr response \<Rightarrow>
          calendars_loop (calendar_of_response W baseUrl) (as_array response) [])))"

section \<open>Events and alarms\<close>

text \<open>
  The \<^verbatim>\<open>Alarm\<close> type of the models is a tagged union over the three actions. A field the
  code fills from a library value keeps that value.
\<close>

datatype Alarm =
    DISPLAY (trigger: jsval) (description: jsval)
  | EMAIL (trigger: jsval) (description: jsval) (summary: jsval) (attendees: "jsval list")
  | AUDIO (trigger: jsval)

fun action :: "Alarm \<Rightarrow> string" where
  "action (DISPLAY t d) = ''DISPLAY''"
| "action (EMAIL t d s a) = ''EMAIL''"
| "action (AUDIO t) = ''AUDIO''"

text \<open>The loop \<^verbatim>\<open>for (const valarm of valarms)\<close> with its \<^verbatim>\<open>alarms.push\<close>.\<close>

fun alarms_loop :: "('v \<Rightarrow> Alarm option) \<Rightarrow> 'v list \<Rightarrow> Alarm list \<Rightarrow> Alarm list" where
  "alarms_loop f [] alarms = alarms"
| "alarms_loop f (valarm # rest) alarms =
     (case f valarm of
        None \<Rightarrow> alarms_loop f rest alarms
      | Some a \<Rightarrow> alarms_loop f rest (alarms @ [a]))"

text \<open>
  An \<^verbatim>\<open>Event\<close> of the models. A \<^verbatim>\<open>Date\<close> is its time in milliseconds since the epoch.
  The type of the recurrence rule differs between the two variants of the parser, so it
  is a parameter. The fields \<^verbatim>\<open>summary\<close>, \<^verbatim>\<open>description\<close> and \<^verbatim>\<open>end\<close> are \<open>summary_of\<close>,
  \<open>description_of\<close> and \<open>end_instant\<close> here.
\<close>

record 'r Event =
  uid :: jsval
  summary_of :: jsval
  start :: int
  end_instant :: int
  description_of :: jsval
  location :: jsval
  etag :: jsval
  href :: jsval
  wholeDay :: bool
  recurrenceRule :: 'r
  startTzid :: jsval
  endTzid :: jsval
  alarms :: "Alarm list"

section \<open>parseEvents: the loop over the response records\<close>

text \<open>
  What one iteration of \<^verbatim>\<open>for (const obj of response)\<close> does: it pushes an event, or
  goes on to the next record (\<^verbatim>\<open>continue\<close>), or an exception inside \<^verbatim>\<open>try\<close> is caught
  and written to the console, or an exception outside \<^verbatim>\<open>try\<close> leaves the function.
\<close>

datatype 'e outcome =
    is_Pushed: Pushed 'e
  | Continue
  | is_Caught: Caught error
  | is_Raised: Raised error

text \<open>
  The part of the iteration that both variants share. \<open>body\<close> is the content of the
  \<^verbatim>\<open>try\<close> block, given \<^verbatim>\<open>obj\<close>, \<^verbatim>\<open>eventData\<close> and \<^verbatim>\<open>cleanedCalendarData\<close>: \<open>Inl e\<close>
  when it throws, \<open>Inr None\<close> at its \<^verbatim>\<open>continue\<close>, \<open>Inr (Some ev)\<close> at \<^verbatim>\<open>events.push(ev)\<close>.
  \<^verbatim>\<open>eventData\<close> is truthy where \<^verbatim>\<open>eventData["calendar-data"]\<close> is read, so that read
  cannot throw. \<^verbatim>\<open>rawCalendarData.replace\<close> stands before \<^verbatim>\<open>try\<close>: on a value that is not
  a string it is not a function, and the TypeError leaves the function.
\<close>

definition event_step ::
  "(jsval \<Rightarrow> jsval \<Rightarrow> string \<Rightarrow> error + 'e option) \<Rightarrow> jsval \<Rightarrow> 'e outcome" where
  "event_step body obj =
     (case js_get obj ''propstat'' of
        Inl e \<Rightarrow> Raised e
      | Inr ps \<Rightarrow>
          let eventData = js_get_opt ps ''prop''
          in if \<not> truthy eventData then Continue
             else
               let rawCalendarData = js_get_opt eventData ''calendar-data''
               in if \<not> truthy rawCalendarData then Continue
                  else
                    (case rawCalendarData of
                       JStr s \<Rightarrow>
                         (case body obj eventData (replace_cr_entity s) of
                            Inl e \<Rightarrow> Caught e
                          | Inr None \<Rightarrow> Continue
                          | Inr (Some ev) \<Rightarrow> Pushed ev)
                     | v \<Rightarrow> Raised TypeError))"

text \<open>
  The loop, with the array \<^verbatim>\<open>events\<close> and the console as state:
  \<^verbatim>\<open>console.error("Error parsing event data:", error)\<close> appends the error to the console.
\<close>

fun events_loop ::
  "(jsval \<Rightarrow> 'e outcome) \<Rightarrow> jsval list \<Rightarrow> 'e list \<Rightarrow> error list \<Rightarrow>
   (error + 'e list) \<times> error list" where
  "events_loop step [] events console = (Inr events, console)"
| "events_loop step (obj # rest) events console =
     (case step obj of
        Pushed ev \<Rightarrow> events_loop step rest (events @ [ev]) console
      | Continue \<Rightarrow> events_loop step rest events console
      | Caught e \<Rightarrow> events_loop step rest events (console @ [e])
      | Raised e \<Rightarrow> (Inl e, console))"

text \<open>
  The frame of \<^verbatim>\<open>parseEvents\<close>, the same in both variants: decode, read
  \<^verbatim>\<open>jsonData["multistatus"]["response"]\<close>, return the empty array when it is falsy,
  wrap a single record in an array, run the loop.
\<close>

definition event_xml_options :: xml_options where
  "event_xml_options =
     \<lparr>removeNSPrefix = Some True, ignoreAttributes = None, attributeNamePrefix = None\<rparr>"

definition parseEvents_with ::
  "(jsval \<Rightarrow> jsval \<Rightarrow> string \<Rightarrow> error + 'e option) \<Rightarrow> web_libs \<Rightarrow> string \<Rightarrow> error list \<Rightarrow>
   (error + 'e list) \<times> error list" where
  "parseEvents_with body W responseData console =
     (case XMLParser_parse W event_xml_options responseData of
        Inl e \<Rightarrow> (Inl e, console)
      | Inr jsonData \<Rightarrow>
     (case js_get jsonData ''multistatus'' of
        Inl e \<Rightarrow> (Inl e, console)
      | Inr ms \<Rightarrow>
     (case js_get ms ''response'' of
        Inl e \<Rightarrow> (Inl e, console)
      | Inr response \<Rightarrow>
          if \<not> truthy response then (Inr [], console)
          else events_loop (event_step body) (as_array response) [] console)))"

text \<open>
  A record reaches the \<^verbatim>\<open>try\<close> block when its \<^verbatim>\<open>propstat.prop\<close> is truthy and its
  \<^verbatim>\<open>calendar-data\<close> is a text that is not empty. \<open>try_block_throws body obj e\<close>: the
  record \<open>obj\<close> reaches the block, and there the text fails to parse or the extraction of
  a field throws, with the exception \<open>e\<close>.
\<close>

definition try_block_throws ::
  "(jsval \<Rightarrow> jsval \<Rightarrow> string \<Rightarrow> error + 'e option) \<Rightarrow> jsval \<Rightarrow> error \<Rightarrow> bool" where
  "try_block_throws body obj e =
     (case js_get obj ''propstat'' of
        Inl x \<Rightarrow> False
      | Inr ps \<Rightarrow>
          truthy (js_get_opt ps ''prop'') \<and>
          (case js_get_opt (js_get_opt ps ''prop'') ''calendar-data'' of
             JStr s \<Rightarrow> s \<noteq> [] \<and> body obj (js_get_opt ps ''prop'') (replace_cr_entity s) = Inl e
           | v \<Rightarrow> False))"

text \<open>
  \<open>lacks v k\<close>: the value \<open>v\<close> has no usable member \<open>k\<close>: reading it throws, or gives
  \<^verbatim>\<open>undefined\<close> or \<^verbatim>\<open>null\<close>.
\<close>

definition lacks :: "jsval \<Rightarrow> string \<Rightarrow> bool" where
  "lacks v k = (case js_get v k of Inl e \<Rightarrow> True | Inr w \<Rightarrow> nullish w)"

section \<open>parseEvents on \<^verbatim>\<open>ical.js\<close> (\<^verbatim>\<open>src/utils/parser.ts\<close>)\<close>

text \<open>
  The objects of \<^verbatim>\<open>ical.js\<close>. A property has parameters and values, a component has a
  name, properties and sub-components, all in the order of the text; names are in lower
  case, as the library keeps them. The accessors are those of the library's interface:
  the first match or \<^verbatim>\<open>null\<close>, or all matches.
\<close>

record ical_property =
  parameters :: "(string \<times> jsval) list"
  prop_values :: "jsval list"

datatype ical_component =
  Component (comp_name: string) (properties: "(string \<times> ical_property) list")
    (subcomponents: "ical_component list")

definition getParameter :: "ical_property \<Rightarrow> string \<Rightarrow> jsval" where
  "getParameter p k = (case map_of (parameters p) k of Some v \<Rightarrow> v | None \<Rightarrow> JUndefined)"

definition getFirstValue :: "ical_property \<Rightarrow> jsval" where
  "getFirstValue p = (case prop_values p of [] \<Rightarrow> JNull | v # vs \<Rightarrow> v)"

definition getFirstProperty :: "ical_component \<Rightarrow> string \<Rightarrow> ical_property option" where
  "getFirstProperty c n = map_of (properties c) n"

definition getAllProperties :: "ical_component \<Rightarrow> string \<Rightarrow> ical_property list" where
  "getAllProperties c n = map snd (filter (\<lambda>kp. fst kp = n) (properties c))"

definition getFirstPropertyValue :: "ical_component \<Rightarrow> string \<Rightarrow> jsval" where
  "getFirstPropertyValue c n =
     (case getFirstProperty c n of None \<Rightarrow> JNull | Some p \<Rightarrow> getFirstValue p)"

definition getFirstSubcomponent :: "ical_component \<Rightarrow> string \<Rightarrow> ical_component option" where
  "getFirstSubcomponent c n = find (\<lambda>s. comp_name s = n) (subcomponents c)"

definition getAllSubcomponents :: "ical_component \<Rightarrow> string \<Rightarrow> ical_component list" where
  "getAllSubcomponents c n = filter (\<lambda>s. comp_name s = n) (subcomponents c)"

text \<open>
  An \<^verbatim>\<open>ICAL.Time\<close>, by the three members the parser reads, and the getters of the
  \<^verbatim>\<open>ICAL.Event\<close> wrapper (\<^verbatim>\<open>startDate\<close> and \<^verbatim>\<open>endDate\<close> may be \<^verbatim>\<open>null\<close>). An
  \<^verbatim>\<open>ICAL.Recur\<close> has its frequency, interval, count, until and the three parts read.
\<close>

record ical_time =
  isDate :: bool
  toUnixTime :: int
  toJSDate :: int

record ical_event =
  ev_uid :: jsval
  ev_summary :: jsval
  ev_description :: jsval
  ev_location :: jsval
  ev_startDate :: "ical_time option"
  ev_endDate :: "ical_time option"

record ical_recur =
  recur_freq :: string
  recur_interval :: int
  recur_count :: "int option"
  recur_until :: "ical_time option"
  parts_BYDAY :: "string list option"
  parts_BYMONTHDAY :: "int list option"
  parts_BYMONTH :: "int list option"

text \<open>
  The library's entry points are parameters: \<open>ICAL_parse\<close> is \<^verbatim>\<open>ICAL.parse\<close> followed by
  \<^verbatim>\<open>new ICAL.Component\<close>, and throws on text that is not iCalendar; \<open>ICAL_Event\<close> is
  \<^verbatim>\<open>new ICAL.Event(vevent)\<close>; \<open>ICAL_Recur_fromString\<close> is \<^verbatim>\<open>ICAL.Recur.fromString\<close>.
\<close>

record icaljs =
  ICAL_parse :: "string \<Rightarrow> error + ical_component"
  ICAL_Event :: "ical_component \<Rightarrow> ical_event"
  ICAL_Recur_fromString :: "string \<Rightarrow> error + ical_recur"

text \<open>Lines 11 to 18: the first element of an array, any other value as it is.\<close>

definition normalizeParam :: "jsval \<Rightarrow> jsval" where
  "normalizeParam v =
     (case v of JArr xs \<Rightarrow> (case xs of [] \<Rightarrow> JUndefined | x # rest \<Rightarrow> x) | w \<Rightarrow> w)"

record RecurrenceRule =
  freq :: "string option"
  interval :: int
  count :: "int option"
  until :: "int option"
  byday :: "string list option"
  bymonthday :: "int list option"
  bymonth :: "int list option"

text \<open>
  Lines 20 to 48. \<^verbatim>\<open>freqMap[recur.freq] || undefined\<close> is the frequency when it is one of
  the four keys of the map; the library's other frequency names give \<^verbatim>\<open>undefined\<close>.
\<close>

definition parseRecurrence :: "ical_recur \<Rightarrow> RecurrenceRule" where
  "parseRecurrence recur =
     \<lparr>freq = (if recur_freq recur \<in> set [''DAILY'', ''WEEKLY'', ''MONTHLY'', ''YEARLY'']
              then Some (recur_freq recur) else None),
      interval = recur_interval recur,
      count = (case recur_count recur of
                 None \<Rightarrow> None
               | Some n \<Rightarrow> if n \<noteq> 0 then Some n else None),
      until = map_option toJSDate (recur_until recur),
      byday = map_option (map (\<lambda>day. day)) (parts_BYDAY recur),
      bymonthday = map_option (map (\<lambda>day. day)) (parts_BYMONTHDAY recur),
      bymonth = map_option (map (\<lambda>month. month)) (parts_BYMONTH recur)\<rparr>"

text \<open>Lines 160 to 168: the recurrence rule of the event, if it has one.\<close>

definition recurrence_of :: "icaljs \<Rightarrow> ical_component \<Rightarrow> error + RecurrenceRule option" where
  "recurrence_of I vevent =
     (case getFirstProperty vevent ''rrule'' of
        None \<Rightarrow> Inr None
      | Some rruleProp \<Rightarrow>
          let rrule = getFirstValue rruleProp
          in if \<not> truthy rrule then Inr None
             else (case ICAL_Recur_fromString I (js_toString rrule) of
                     Inl e \<Rightarrow> Inl e
                   | Inr recur \<Rightarrow> Inr (Some (parseRecurrence recur))))"

text \<open>Lines 174 to 207: the alarm of one \<^verbatim>\<open>VALARM\<close>, if the chain of tests builds one.\<close>

definition alarm_of_valarm :: "ical_component \<Rightarrow> Alarm option" where
  "alarm_of_valarm valarm =
     (let act = getFirstPropertyValue valarm ''action'';
          trig = toString_opt (getFirstPropertyValue valarm ''trigger'')
      in if act = JStr ''DISPLAY'' \<and> truthy trig then
           Some (DISPLAY trig
                   (js_or (toString_opt (getFirstPropertyValue valarm ''description'')) JUndefined))
         else if act = JStr ''EMAIL'' \<and> truthy trig then
           Some (EMAIL trig
                   (js_or (toString_opt (getFirstPropertyValue valarm ''description'')) JUndefined)
                   (js_or (toString_opt (getFirstPropertyValue valarm ''summary'')) JUndefined)
                   (filter is_string (map getFirstValue (getAllProperties valarm ''attendee''))))
         else if act = JStr ''AUDIO'' \<and> truthy trig then Some (AUDIO trig)
         else None)"

text \<open>Lines 146 to 153: the whole-day flag, the start and the adjusted end.\<close>

definition adjustedEnd :: "bool \<Rightarrow> int \<Rightarrow> int" where
  "adjustedEnd isWholeDay endDate = (if isWholeDay then endDate - 86400000 else endDate)"

definition tzid_of :: "ical_property option \<Rightarrow> jsval" where
  "tzid_of prop =
     js_or (normalizeParam (case prop of None \<Rightarrow> JUndefined | Some p \<Rightarrow> getParameter p ''tzid''))
       JUndefined"

text \<open>The content of the \<^verbatim>\<open>try\<close> block, lines 136 to 224.\<close>

definition try_body_icaljs ::
  "icaljs \<Rightarrow> web_libs \<Rightarrow> string option \<Rightarrow> jsval \<Rightarrow> jsval \<Rightarrow> string \<Rightarrow>
   error + RecurrenceRule option Event option" where
  "try_body_icaljs I W baseUrl obj eventData cleanedCalendarData =
     (case ICAL_parse I cleanedCalendarData of
        Inl e \<Rightarrow> Inl e
      | Inr vcalendar \<Rightarrow>
     (case getFirstSubcomponent vcalendar ''vevent'' of
        None \<Rightarrow> Inr None
      | Some vevent \<Rightarrow>
          let icalEvent = ICAL_Event I vevent;
              dtStartProp = getFirstProperty vevent ''dtstart'';
              dtEndProp = getFirstProperty vevent ''dtend''
          in
     (case ev_startDate icalEvent of
        None \<Rightarrow> Inl TypeError
      | Some sd \<Rightarrow>
          let isWholeDay = isDate sd;
              startDate = toUnixTime sd * 1000;
              endDate = (case ev_endDate icalEvent of
                           Some ed \<Rightarrow> toUnixTime ed * 1000
                         | None \<Rightarrow> startDate)
          in
     (case recurrence_of I vevent of
        Inl e \<Rightarrow> Inl e
      | Inr rule \<Rightarrow>
     (case js_get eventData ''getetag'' of
        Inl e \<Rightarrow> Inl e
      | Inr tag \<Rightarrow>
     (case resolve_href W baseUrl obj of
        Inl e \<Rightarrow> Inl e
      | Inr h \<Rightarrow>
          Inr (Some
            \<lparr>uid = ev_uid icalEvent,
             summary_of = js_or (ev_summary icalEvent) (JStr ''Untitled Event''),
             start = startDate,
             end_instant = adjustedEnd isWholeDay endDate,
             description_of = js_or (ev_description icalEvent) JUndefined,
             location = js_or (ev_location icalEvent) JUndefined,
             etag = js_or tag (JStr []),
             href = h,
             wholeDay = isWholeDay,
             recurrenceRule = rule,
             startTzid = tzid_of dtStartProp,
             endTzid = tzid_of dtEndProp,
             alarms = alarms_loop alarm_of_valarm (getAllSubcomponents vevent ''valarm'') []\<rparr>)))))))"

definition parseEvents ::
  "icaljs \<Rightarrow> web_libs \<Rightarrow> string \<Rightarrow> string option \<Rightarrow> error list \<Rightarrow>
   (error + RecurrenceRule option Event list) \<times> error list" where
  "parseEvents I W responseData baseUrl console =
     parseEvents_with (try_body_icaljs I W baseUrl) W responseData console"

section \<open>parseEvents on \<^verbatim>\<open>node-ical\<close> (the second variant of the parser)\<close>

text \<open>
  The objects of \<^verbatim>\<open>node-ical\<close>, by the members the parser reads. A date is a \<^verbatim>\<open>Date\<close>
  with the library's \<^verbatim>\<open>tz\<close> member; \<^verbatim>\<open>start\<close>, \<^verbatim>\<open>end\<close> and \<^verbatim>\<open>alarms\<close> may be
  \<^verbatim>\<open>undefined\<close>. \<open>parseICS\<close> is \<^verbatim>\<open>Object.values(ICAL.sync.parseICS(text))\<close>, a
  parameter.
\<close>

record nical_date =
  date_ms :: int
  tz :: jsval

record nical_alarm =
  va_action :: jsval
  va_trigger :: jsval
  va_description :: jsval
  va_summary :: jsval
  va_attendee :: jsval

record nical_component =
  nc_type :: jsval
  nc_alarms :: "nical_alarm list option"
  nc_uid :: jsval
  nc_summary :: jsval
  nc_start :: "nical_date option"
  nc_end :: "nical_date option"
  nc_description :: jsval
  nc_location :: jsval
  nc_datetype :: jsval
  nc_rrule :: jsval

text \<open>Lines 108 to 131 of the variant: the alarm of one element of \<^verbatim>\<open>event.alarms\<close>.\<close>

definition alarm_of_nical :: "nical_alarm \<Rightarrow> Alarm option" where
  "alarm_of_nical valarm =
     (let act = va_action valarm;
          trig = va_trigger valarm
      in if act = JStr ''DISPLAY'' \<and> truthy trig then
           Some (DISPLAY trig (va_description valarm))
         else if act = JStr ''EMAIL'' \<and> truthy trig then
           Some (EMAIL trig (va_description valarm) (va_summary valarm)
                   (if truthy (va_attendee valarm) then [JStr (js_toString (va_attendee valarm))]
                    else []))
         else if act = JStr ''AUDIO'' \<and> truthy trig then Some (AUDIO trig)
         else None)"

text \<open>
  The content of the \<^verbatim>\<open>try\<close> block, lines 96 to 149 of the variant. The end is
  \<^verbatim>\<open>event.end\<close> as the library gives it. \<^verbatim>\<open>event.start.tz\<close> and \<^verbatim>\<open>event.end.tz\<close> throw
  a TypeError for an event without start or end.
\<close>

definition try_body_nical ::
  "(string \<Rightarrow> error + nical_component list) \<Rightarrow> web_libs \<Rightarrow> string option \<Rightarrow> jsval \<Rightarrow> jsval \<Rightarrow>
   string \<Rightarrow> error + jsval Event option" where
  "try_body_nical parseICS W baseUrl obj eventData cleanedCalendarData =
     (case parseICS cleanedCalendarData of
        Inl e \<Rightarrow> Inl e
      | Inr jcalData \<Rightarrow>
     (case find (\<lambda>v. nc_type v = JStr ''VEVENT'') jcalData of
        None \<Rightarrow> Inr None
      | Some event \<Rightarrow>
          let alarm_list = (case nc_alarms event of
                              None \<Rightarrow> []
                            | Some valarms \<Rightarrow> alarms_loop alarm_of_nical valarms [])
          in
     (case js_get eventData ''getetag'' of
        Inl e \<Rightarrow> Inl e
      | Inr tag \<Rightarrow>
     (case resolve_href W baseUrl obj of
        Inl e \<Rightarrow> Inl e
      | Inr h \<Rightarrow>
     (case nc_start event of
        None \<Rightarrow> Inl TypeError
      | Some s \<Rightarrow>
     (case nc_end event of
        None \<Rightarrow> Inl TypeError
      | Some en \<Rightarrow>
          Inr (Some
            \<lparr>uid = nc_uid event,
             summary_of = js_or (nc_summary event) (JStr ''Untitled Event''),
             start = date_ms s,
             end_instant = date_ms en,
             description_of = nc_description event,
             location = nc_location event,
             etag = js_or tag (JStr []),
             href = h,
             wholeDay = (nc_datetype event = JStr ''date''),
             recurrenceRule = nc_rrule event,
             startTzid = tz s,
             endTzid = tz en,
             alarms = alarm_list\<rparr>)))))))"

definition parseEvents_nical ::
  "(string \<Rightarrow> error + nical_component list) \<Rightarrow> web_libs \<Rightarrow> string \<Rightarrow> string option \<Rightarrow>
   error list \<Rightarrow> (error + jsval Event list) \<times> error list" where
  "parseEvents_nical parseICS W responseData baseUrl console =
     parseEvents_with (try_body_nical parseICS W baseUrl) W responseData console"

section \<open>Sample libraries for concrete runs\<close>

text \<open>
  Concrete runs need concrete libraries. A decoder or parser given by a table returns
  the entry of the text and throws on a text that has none; the sample URL constructor
  appends the href to the base; the sample \<^verbatim>\<open>toLowerCase\<close> maps the letters A to Z, which
  is what the runtime does on the ASCII texts of the runs below; the sample
  \<^verbatim>\<open>ICAL.Event\<close> has fixed getters.
\<close>

definition lower_char :: "char \<Rightarrow> char" where
  "lower_char c =
     (let n = (of_char c :: nat)
      in if 65 \<le> n \<and> n \<le> 90 then char_of (n + 32) else c)"

definition ascii_toLowerCase :: "string \<Rightarrow> string" where
  "ascii_toLowerCase s = map lower_char s"

definition table_parse :: "(string \<times> 'a) list \<Rightarrow> string \<Rightarrow> error + 'a" where
  "table_parse t text =
     (case map_of t text of None \<Rightarrow> Inl (Thrown ''parse error'') | Some v \<Rightarrow> Inr v)"

definition table_decode :: "(string \<times> jsval) list \<Rightarrow> xml_options \<Rightarrow> string \<Rightarrow> error + jsval" where
  "table_decode t opts text = table_parse t text"

definition append_URL :: "jsval \<Rightarrow> string \<Rightarrow> error + string" where
  "append_URL h b = Inr (b @ js_toString h)"

definition sample_web :: "(string \<times> jsval) list \<Rightarrow> web_libs" where
  "sample_web t =
     \<lparr>XMLParser_parse = table_decode t, new_URL = append_URL, toLowerCase = ascii_toLowerCase\<rparr>"

definition fixed_Event :: "ical_event \<Rightarrow> ical_component \<Rightarrow> ical_event" where
  "fixed_Event e c = e"

definition sample_icaljs :: "(string \<times> ical_component) list \<Rightarrow> ical_event \<Rightarrow> icaljs" where
  "sample_icaljs t e =
     \<lparr>ICAL_parse = table_parse t, ICAL_Event = fixed_Event e,
      ICAL_Recur_fromString = table_parse []\<rparr>"

text \<open>
  Decoded documents: a response record of an event report, a response record of a
  calendar listing, and the multistatus around a \<^verbatim>\<open>response\<close> value.
\<close>

definition event_record :: "string \<Rightarrow> jsval \<Rightarrow> jsval \<Rightarrow> jsval" where
  "event_record h tag data =
     JObj [(''href'', JStr h),
           (''propstat'', JObj [(''prop'', JObj [(''getetag'', tag), (''calendar-data'', data)]),
                                (''status'', JStr ''HTTP/1.1 200 OK'')])]"

definition calendar_record :: "string \<Rightarrow> jsval \<Rightarrow> jsval" where
  "calendar_record h comps =
     JObj [(''href'', JStr h),
           (''propstat'',
            JObj [(''prop'', JObj [(''displayname'', JStr ''Work''), (''getctag'', JStr ''c1''),
                                   (''supported-calendar-component-set'', JObj [(''comp'', comps)])]),
                  (''status'', JStr ''HTTP/1.1 200 OK'')])]"

definition comp_named :: "string \<Rightarrow> jsval" where
  "comp_named n = JObj [(''name'', JStr n)]"

definition multistatus_of :: "jsval \<Rightarrow> jsval" where
  "multistatus_of response = JObj [(''multistatus'', JObj [(''response'', response)])]"

text \<open>
  A whole-day event from 2024-01-10 with the exclusive end 2024-01-12, as each library
  presents it: 1704844800 and 1705017600 are the two midnights in seconds since the
  epoch.
\<close>

definition whole_day_vcalendar :: ical_component where
  "whole_day_vcalendar =
     Component ''vcalendar'' []
       [Component ''vevent''
          [(''dtstart'', \<lparr>parameters = [(''value'', JStr ''date'')], prop_values = [JLib ''2024-01-10'']\<rparr>),
           (''dtend'', \<lparr>parameters = [(''value'', JStr ''date'')], prop_values = [JLib ''2024-01-12'']\<rparr>)]
          []]"

definition whole_day_getters :: ical_event where
  "whole_day_getters =
     \<lparr>ev_uid = JStr ''u1'', ev_summary = JStr ''Trip'', ev_description = JNull,
      ev_location = JNull,
      ev_startDate = Some \<lparr>isDate = True, toUnixTime = 1704844800, toJSDate = 1704844800000\<rparr>,
      ev_endDate = Some \<lparr>isDate = True, toUnixTime = 1705017600, toJSDate = 1705017600000\<rparr>\<rparr>"

definition whole_day_nical :: nical_component where
  "whole_day_nical =
     \<lparr>nc_type = JStr ''VEVENT'', nc_alarms = None, nc_uid = JStr ''u1'',
      nc_summary = JStr ''Trip'',
      nc_start = Some \<lparr>date_ms = 1704844800000, tz = JUndefined\<rparr>,
      nc_end = Some \<lparr>date_ms = 1705017600000, tz = JUndefined\<rparr>,
      nc_description = JUndefined, nc_location = JUndefined, nc_datetype = JStr ''date'',
      nc_rrule = JUndefined\<rparr>"

text \<open>An e-mail alarm with the trigger \<^verbatim>\<open>-PT15M\<close> and two attendees, as each library presents it.\<close>

definition email_valarm :: ical_component where
  "email_valarm =
     Component ''valarm''
       [(''action'', \<lparr>parameters = [], prop_values = [JStr ''EMAIL'']\<rparr>),
        (''trigger'', \<lparr>parameters = [], prop_values = [JLib ''-PT15M'']\<rparr>),
        (''attendee'', \<lparr>parameters = [], prop_values = [JStr ''mailto:a@example.org'']\<rparr>),
        (''attendee'', \<lparr>parameters = [], prop_values = [JStr ''mailto:b@example.org'']\<rparr>)]
       []"

definition email_nical :: nical_alarm where
  "email_nical =
     \<lparr>va_action = JStr ''EMAIL'', va_trigger = JStr ''-PT15M'', va_description = JUndefined,
      va_summary = JUndefined,
      va_attendee = JArr [JStr ''mailto:a@example.org'', JStr ''mailto:b@example.org'']\<rparr>"

text \<open>
  A \<^verbatim>\<open>VALARM\<close> with an action that is none of the three, and an event that carries it
  beside the e-mail alarm.
\<close>

definition procedure_valarm :: ical_component where
  "procedure_valarm =
     Component ''valarm''
       [(''action'', \<lparr>parameters = [], prop_values = [JStr ''PROCEDURE'']\<rparr>),
        (''trigger'', \<lparr>parameters = [], prop_values = [JLib ''-PT15M'']\<rparr>)]
       []"

definition alarm_vcalendar :: ical_component where
  "alarm_vcalendar =
     Component ''vcalendar'' []
       [Component ''vevent'' [] [email_valarm, procedure_valarm]]"

definition alarm_nical :: nical_component where
  "alarm_nical =
     whole_day_nical\<lparr>nc_alarms := Some [email_nical, email_nical\<lparr>va_action := JStr ''PROCEDURE''\<rparr>]\<rparr>"

text \<open>
  Decoder tables: a report with one event and a given \<^verbatim>\<open>getetag\<close>; one whose record has
  no \<^verbatim>\<open>getetag\<close>; a report of ten records of which the fourth has a calendar text that
  does not parse; a document with an empty \<^verbatim>\<open>multistatus\<close> (the decoder returns the empty
  string for an empty element), one whose \<^verbatim>\<open>multistatus\<close> has a description and no
  \<^verbatim>\<open>response\<close>, and one with no root; a calendar listing with a calendar
  for events and tasks and one for tasks only.
\<close>

definition one_event_doc :: "jsval \<Rightarrow> (string \<times> jsval) list" where
  "one_event_doc tag =
     [(''doc'', multistatus_of (event_record ''/cal/1.ics'' tag (JStr ''ICS'')))]"


definition good_record :: jsval where
  "good_record = event_record ''/cal/ok.ics'' (JStr ''e1'') (JStr ''ICS'')"

definition bad_record :: jsval where
  "bad_record = event_record ''/cal/bad.ics'' (JStr ''e2'') (JStr ''garbage'')"

definition ten_records_doc :: "(string \<times> jsval) list" where
  "ten_records_doc =
     [(''ten'', multistatus_of
         (JArr ([good_record, good_record, good_record] @ bad_record #
                [good_record, good_record, good_record, good_record, good_record, good_record])))]"

text \<open>
  The same report with, as fourth record, one whose \<^verbatim>\<open>calendar-data\<close> is the numeric text
  \<^verbatim>\<open>12345\<close>, which the decoder returns as a number; and a record with two propstats,
  the first with status 200 OK and the calendar text, the second with status 404.
\<close>

definition numeric_record :: jsval where
  "numeric_record = event_record ''/cal/num.ics'' (JStr ''e3'') (JNum 12345)"

definition ten_numeric_doc :: "(string \<times> jsval) list" where
  "ten_numeric_doc =
     [(''ten'', multistatus_of
         (JArr ([good_record, good_record, good_record] @ numeric_record #
                [good_record, good_record, good_record, good_record, good_record, good_record])))]"

definition two_propstat_record :: jsval where
  "two_propstat_record =
     JObj [(''href'', JStr ''/cal/two.ics''),
           (''propstat'',
            JArr [JObj [(''prop'', JObj [(''getetag'', JStr ''e4''), (''calendar-data'', JStr ''ICS'')]),
                        (''status'', JStr ''HTTP/1.1 200 OK'')],
                  JObj [(''prop'', JObj [(''displayname'', JStr [])]),
                        (''status'', JStr ''HTTP/1.1 404 Not Found'')]])]"

definition no_response_doc :: "(string \<times> jsval) list" where
  "no_response_doc =
     [(''empty'', JObj [(''multistatus'', JStr [])]),
      (''no-match'', JObj [(''multistatus'', JObj [(''responsedescription'', JStr ''no match'')])]),
      (''no-root'', JObj [])]"

definition calendars_doc :: "(string \<times> jsval) list" where
  "calendars_doc =
     [(''cals'', multistatus_of
         (JArr [calendar_record ''/cal/work/'' (JArr [comp_named ''VEVENT'', comp_named ''VTODO'']),
                calendar_record ''/cal/tasks/'' (comp_named ''VTODO'')]))]"

section \<open>Properties\<close>

subsection \<open>The loops\<close>

lemma alarms_loop_map_filter: "alarms_loop f vs acc = acc @ List.map_filter f vs"
  by (induction vs arbitrary: acc) (auto split: option.splits)

lemma alarms_loop_mem:
  "a \<in> set (alarms_loop f vs []) \<Longrightarrow> \<exists>v \<in> set vs. f v = Some a"
  by (auto simp: alarms_loop_map_filter List.map_filter_def)

lemma calendars_loop_mem:
  "calendars_loop f rs acc = Inr cs \<Longrightarrow> c \<in> set cs \<Longrightarrow>
   c \<in> set acc \<or> (\<exists>r \<in> set rs. f r = Inr (Some c))"
proof (induction rs arbitrary: acc)
  case Nil
  then show ?case by simp
next
  case (Cons r rs)
  show ?case
  proof (cases "f r")
    case (Inl e)
    with Cons.prems show ?thesis by simp
  next
    case (Inr res)
    show ?thesis
    proof (cases res)
      case None
      with Inr Cons.prems have "calendars_loop f rs acc = Inr cs" by simp
      from Cons.IH [OF this Cons.prems(2)] show ?thesis by auto
    next
      case (Some x)
      with Inr Cons.prems have "calendars_loop f rs (acc @ [x]) = Inr cs" by simp
      from Cons.IH [OF this Cons.prems(2)] Inr Some show ?thesis by auto
    qed
  qed
qed

lemma calendars_loop_skip:
  "f res = Inr None \<Longrightarrow>
   calendars_loop f (before @ res # after) acc = calendars_loop f (before @ after) acc"
  by (induction before arbitrary: acc) (auto split: sum.splits option.splits)

text \<open>The events that the loop returns do not depend on the console.\<close>

lemma fst_events_loop_console:
  "fst (events_loop step rs acc c1) = fst (events_loop step rs acc c2)"
  by (induction rs arbitrary: acc c1 c2) (auto split: outcome.splits)

lemma events_loop_skip_caught:
  "step bad = Caught e \<Longrightarrow>
   fst (events_loop step (before @ bad # after) acc con) =
   fst (events_loop step (before @ after) acc con)"
proof (induction before arbitrary: acc con)
  case Nil
  then show ?case using fst_events_loop_console [of step after acc "con @ [e]" con] by simp
next
  case (Cons r rs)
  then show ?case by (cases "step r") simp_all
qed

lemma events_loop_all_pushed:
  "list_all (\<lambda>r. is_Pushed (step r)) rs \<Longrightarrow>
   \<exists>evs. events_loop step rs acc con = (Inr (acc @ evs), con) \<and> length evs = length rs"
proof (induction rs arbitrary: acc)
  case Nil
  then show ?case by simp
next
  case (Cons r rs)
  from Cons.prems obtain ev where ev: "step r = Pushed ev" by (cases "step r") auto
  from Cons.prems have "list_all (\<lambda>r. is_Pushed (step r)) rs" by simp
  from Cons.IH [OF this, of "acc @ [ev]"] obtain evs where
    "events_loop step rs (acc @ [ev]) con = (Inr ((acc @ [ev]) @ evs), con)" "length evs = length rs"
    by blast
  with ev show ?case by (intro exI [of _ "ev # evs"]) simp
qed

lemma events_loop_mem:
  "events_loop step rs acc con = (Inr evs, con') \<Longrightarrow> ev \<in> set evs \<Longrightarrow>
   ev \<in> set acc \<or> (\<exists>r \<in> set rs. step r = Pushed ev)"
proof (induction rs arbitrary: acc con)
  case Nil
  then show ?case by simp
next
  case (Cons r rs)
  show ?case
  proof (cases "step r")
    case (Pushed x)
    with Cons.prems have "events_loop step rs (acc @ [x]) con = (Inr evs, con')" by simp
    from Cons.IH [OF this Cons.prems(2)] Pushed show ?thesis by auto
  next
    case Continue
    with Cons.prems have "events_loop step rs acc con = (Inr evs, con')" by simp
    from Cons.IH [OF this Cons.prems(2)] show ?thesis by auto
  next
    case (Caught x)
    with Cons.prems have "events_loop step rs acc (con @ [x]) = (Inr evs, con')" by simp
    from Cons.IH [OF this Cons.prems(2)] show ?thesis by auto
  next
    case (Raised x)
    with Cons.prems show ?thesis by simp
  qed
qed

text \<open>An event is pushed only by a \<^verbatim>\<open>try\<close> block that ran to its end.\<close>

lemma event_step_Pushed:
  "event_step body obj = Pushed ev \<Longrightarrow>
   \<exists>eventData cleaned. truthy eventData \<and> body obj eventData cleaned = Inr (Some ev)"
  by (auto simp: event_step_def Let_def split: sum.splits if_splits jsval.splits option.splits)

text \<open>The \<^verbatim>\<open>catch\<close> clause runs exactly when the \<^verbatim>\<open>try\<close> block throws.\<close>

lemma event_step_Caught: "event_step body obj = Caught e \<longleftrightarrow> try_block_throws body obj e"
  by (auto simp: event_step_def try_block_throws_def Let_def
      split: sum.splits if_splits jsval.splits option.splits)

text \<open>A calendar text that is not a string leaves the function with a TypeError.\<close>

lemma event_step_not_text:
  "js_get obj ''propstat'' = Inr ps \<Longrightarrow> truthy (js_get_opt ps ''prop'') \<Longrightarrow>
   js_get_opt (js_get_opt ps ''prop'') ''calendar-data'' = v \<Longrightarrow> truthy v \<Longrightarrow> \<not> is_string v \<Longrightarrow>
   event_step body obj = Raised TypeError"
  by (cases v) (auto simp: event_step_def Let_def)

lemma parseEvents_with_mem:
  assumes "fst (parseEvents_with body W d con) = Inr evs" "ev \<in> set evs"
  shows "\<exists>obj eventData cleaned. truthy eventData \<and> body obj eventData cleaned = Inr (Some ev)"
proof -
  from assms obtain rs where "fst (events_loop (event_step body) rs [] con) = Inr evs"
    by (auto simp: parseEvents_with_def split: sum.splits if_splits)
  then obtain con' where "events_loop (event_step body) rs [] con = (Inr evs, con')"
    by (cases "events_loop (event_step body) rs [] con") auto
  from events_loop_mem [OF this assms(2)] obtain r where "event_step body r = Pushed ev" by auto
  from event_step_Pushed [OF this] show ?thesis by blast
qed

lemma parseEvents_with_skips:
  assumes "XMLParser_parse W event_xml_options d = Inr jsonData"
    and "js_get jsonData ''multistatus'' = Inr ms"
    and "js_get ms ''response'' = Inr (JArr (before @ bad # after))"
    and "try_block_throws body bad e"
  shows "fst (parseEvents_with body W d con) =
         fst (events_loop (event_step body) (before @ after) [] con)"
  using assms events_loop_skip_caught [of "event_step body" bad e before after "[]" con]
  by (simp add: parseEvents_with_def event_step_Caught)

lemma parseEvents_with_nine:
  assumes "XMLParser_parse W event_xml_options d = Inr jsonData"
    and "js_get jsonData ''multistatus'' = Inr ms"
    and "js_get ms ''response'' = Inr (JArr (before @ bad # after))"
    and "try_block_throws body bad e"
    and "length (before @ after) = 9"
    and "list_all (\<lambda>r. is_Pushed (event_step body r)) (before @ after)"
  shows "\<exists>evs. fst (parseEvents_with body W d con) = Inr evs \<and> length evs = 9"
proof -
  from events_loop_all_pushed [OF assms(6), of "[]" con] assms(5)
  have "\<exists>evs. fst (events_loop (event_step body) (before @ after) [] con) = Inr evs \<and> length evs = 9"
    by auto
  with parseEvents_with_skips [OF assms(1-4), of con] show ?thesis by simp
qed

subsection \<open>The change detector\<close>

text \<open>
  C3. When the previous and the current change tag are equal, the detector returns
  \<open>changed = False\<close>, the current tag and three empty lists, whatever the two lists of
  references hold: no per-event comparison takes place.
\<close>

theorem detectChanges_same_ctag:
  "prevCtag = currCtag \<Longrightarrow>
   detectChanges prevCtag prevRefs currCtag currRefs =
     \<lparr>changed = False, newCtag = currCtag, newEvents = [], updatedEvents = [],
      deletedEvents = []\<rparr>"
  by (simp add: detectChanges_def)

theorem detectChanges_same_ctag_witness:
  "detectChanges ''ctag-1'' [\<lparr>ref_href = ''/a'', ref_etag = ''1''\<rparr>] ''ctag-1''
     [\<lparr>ref_href = ''/a'', ref_etag = ''2''\<rparr>, \<lparr>ref_href = ''/b'', ref_etag = ''1''\<rparr>] =
     \<lparr>changed = False, newCtag = ''ctag-1'', newEvents = [], updatedEvents = [],
      deletedEvents = []\<rparr>"
  using detectChanges_same_ctag [of "''ctag-1''" "''ctag-1''"
      "[\<lparr>ref_href = ''/a'', ref_etag = ''1''\<rparr>]"
      "[\<lparr>ref_href = ''/a'', ref_etag = ''2''\<rparr>, \<lparr>ref_href = ''/b'', ref_etag = ''1''\<rparr>]"]
  by simp

subsection \<open>Calendars\<close>

lemma calendar_of_response_VEVENT:
  "calendar_of_response W b res = Inr (Some c) \<Longrightarrow> JStr ''VEVENT'' \<in> set (supportedComponents c)"
  by (auto simp: calendar_of_response_def split: sum.splits option.splits if_splits)

lemma calendar_of_response_without_VEVENT:
  "selected_prop W res = Inr (Some prop) \<Longrightarrow> comp_names_of prop = Inr names \<Longrightarrow>
   JStr ''VEVENT'' \<notin> set names \<Longrightarrow> calendar_of_response W b res = Inr None"
  by (simp add: calendar_of_response_def supported_of_def)

text \<open>
  C6. Every calendar that \<^verbatim>\<open>parseCalendars\<close> returns has \<^verbatim>\<open>VEVENT\<close> among its supported
  components. A response record whose component set (the names of the \<^verbatim>\<open>comp\<close> children
  of its 200 OK propstat) has no \<^verbatim>\<open>VEVENT\<close>, for instance only \<^verbatim>\<open>VTODO\<close>, makes the loop
  continue: the result is that of the input without this record.
\<close>

theorem calendars_support_VEVENT:
  "(parseCalendars W responseData baseUrl = Inr calendars \<and> c \<in> set calendars \<longrightarrow>
      JStr ''VEVENT'' \<in> set (supportedComponents c)) \<and>
   (selected_prop W res = Inr (Some prop) \<and> comp_names_of prop = Inr names \<and>
    JStr ''VEVENT'' \<notin> set names \<longrightarrow>
      calendar_of_response W baseUrl res = Inr None \<and>
      calendars_loop (calendar_of_response W baseUrl) (before @ res # after) acc =
      calendars_loop (calendar_of_response W baseUrl) (before @ after) acc)"
proof (intro conjI impI)
  assume h: "parseCalendars W responseData baseUrl = Inr calendars \<and> c \<in> set calendars"
  then obtain rs where "calendars_loop (calendar_of_response W baseUrl) rs [] = Inr calendars"
    by (auto simp: parseCalendars_def split: sum.splits)
  from calendars_loop_mem [OF this] h obtain r where
    "calendar_of_response W baseUrl r = Inr (Some c)" by auto
  then show "JStr ''VEVENT'' \<in> set (supportedComponents c)"
    by (rule calendar_of_response_VEVENT)
next
  assume h: "selected_prop W res = Inr (Some prop) \<and> comp_names_of prop = Inr names \<and>
    JStr ''VEVENT'' \<notin> set names"
  then show n: "calendar_of_response W baseUrl res = Inr None"
    by (simp add: calendar_of_response_without_VEVENT)
  then show "calendars_loop (calendar_of_response W baseUrl) (before @ res # after) acc =
      calendars_loop (calendar_of_response W baseUrl) (before @ after) acc"
    by (rule calendars_loop_skip)
qed

text \<open>
  A listing of two calendars, one for events and tasks and one for tasks only: the
  first alone is returned.
\<close>

theorem calendars_support_VEVENT_witness:
  "map_sum id (map url) (parseCalendars (sample_web calendars_doc) ''cals'' None) =
     Inr [JStr ''/cal/work/''] \<and>
   JStr ''VEVENT'' \<in>
     set (supportedComponents (hd (projr (parseCalendars (sample_web calendars_doc) ''cals'' None)))) \<and>
   comp_names_of (projr (js_get (projr (js_get (calendar_record ''/cal/tasks/'' (comp_named ''VTODO''))
       ''propstat'')) ''prop'')) = Inr [JStr ''VTODO''] \<and>
   calendar_of_response (sample_web calendars_doc) None
     (calendar_record ''/cal/tasks/'' (comp_named ''VTODO'')) = Inr None"
proof -
  let ?W = "sample_web calendars_doc"
  let ?cs = "projr (parseCalendars ?W ''cals'' None)"
  let ?res = "calendar_record ''/cal/tasks/'' (comp_named ''VTODO'')"
  let ?p = "projr (js_get (projr (js_get ?res ''propstat'')) ''prop'')"
  have u: "map_sum id (map url) (parseCalendars ?W ''cals'' None) = Inr [JStr ''/cal/work/'']"
    by code_simp
  have h1: "parseCalendars ?W ''cals'' None = Inr ?cs \<and> hd ?cs \<in> set ?cs"
    by code_simp
  have h2: "selected_prop ?W ?res = Inr (Some ?p) \<and> comp_names_of ?p = Inr [JStr ''VTODO''] \<and>
      JStr ''VEVENT'' \<notin> set [JStr ''VTODO'']"
    by code_simp
  have a: "JStr ''VEVENT'' \<in> set (supportedComponents (hd ?cs))"
    by (rule calendars_support_VEVENT [THEN conjunct1, THEN mp, OF h1])
  have b: "calendar_of_response ?W None ?res = Inr None"
    by (rule calendars_support_VEVENT [THEN conjunct2, THEN mp, OF h2, THEN conjunct1])
  from u a h2 b show ?thesis by blast
qed

subsection \<open>Failures of the whole call\<close>

lemma lacks_get: "lacks v k \<Longrightarrow> js_get v k = Inl TypeError \<or> (\<exists>w. js_get v k = Inr w \<and> nullish w)"
  by (cases v) (auto simp: lacks_def)

lemma nullish_get: "nullish w \<Longrightarrow> js_get w k = Inl TypeError"
  by (cases w) auto

lemma nullish_not_truthy: "nullish w \<Longrightarrow> \<not> truthy w"
  by (cases w) auto

lemma nullish_as_array: "nullish w \<Longrightarrow> as_array w = [w]"
  by (cases w) auto

lemma calendar_of_nullish: "nullish w \<Longrightarrow> calendar_of_response W b w = Inl TypeError"
  by (simp add: calendar_of_response_def selected_prop_def nullish_get)

lemma lacks_response_cases:
  "lacks ms ''response'' \<Longrightarrow> \<not> nullish ms \<Longrightarrow> \<exists>w. js_get ms ''response'' = Inr w \<and> nullish w"
  by (cases ms) (auto simp: lacks_def)

text \<open>
  The claim C5 as the specification states it, that no entry point returns an empty but
  successful result for a document without the \<^verbatim>\<open>response\<close> structure, fails for
  \<^verbatim>\<open>parseEvents\<close>: for a \<^verbatim>\<open>multistatus\<close> that has no \<^verbatim>\<open>response\<close> child, or is empty,
  both variants return the empty list and write nothing to the console (line 123,
  \<^verbatim>\<open>if (!response) return events\<close>).
\<close>

theorem parseEvents_missing_response_counterexample:
  "XMLParser_parse (sample_web no_response_doc) event_xml_options ''no-match'' =
     Inr (JObj [(''multistatus'', JObj [(''responsedescription'', JStr ''no match'')])]) \<and>
   lacks (JObj [(''responsedescription'', JStr ''no match'')]) ''response'' \<and>
   parseEvents (sample_icaljs [] whole_day_getters) (sample_web no_response_doc) ''no-match'' None [] =
     (Inr [], []) \<and>
   parseEvents_nical (table_parse []) (sample_web no_response_doc) ''no-match'' None [] =
     (Inr [], []) \<and>
   XMLParser_parse (sample_web no_response_doc) event_xml_options ''empty'' =
     Inr (JObj [(''multistatus'', JStr [])]) \<and>
   lacks (JStr []) ''response'' \<and>
   parseEvents (sample_icaljs [] whole_day_getters) (sample_web no_response_doc) ''empty'' None [] =
     (Inr [], []) \<and>
   parseEvents_nical (table_parse []) (sample_web no_response_doc) ''empty'' None [] = (Inr [], [])"
  by code_simp

text \<open>
  C5, amended. When the decoder throws, \<^verbatim>\<open>parseCalendars\<close> and \<^verbatim>\<open>parseEvents\<close> fail with
  the decoder's exception; when the decoded document has no \<^verbatim>\<open>multistatus\<close>, both fail
  with a TypeError: no result is returned. When \<^verbatim>\<open>multistatus\<close> is there but has no
  \<^verbatim>\<open>response\<close>, \<^verbatim>\<open>parseCalendars\<close> fails with a TypeError, and \<^verbatim>\<open>parseEvents\<close> returns
  the empty list and leaves the console as it was.
\<close>

theorem structural_failures_propagate:
  "(XMLParser_parse W calendar_xml_options responseData = Inl e \<longrightarrow>
      parseCalendars W responseData baseUrl = Inl e) \<and>
   (XMLParser_parse W event_xml_options responseData = Inl e \<longrightarrow>
      parseEvents I W responseData baseUrl console = (Inl e, console) \<and>
      parseEvents_nical P W responseData baseUrl console = (Inl e, console)) \<and>
   (XMLParser_parse W calendar_xml_options responseData = Inr jsonData \<and>
    lacks jsonData ''multistatus'' \<longrightarrow>
      parseCalendars W responseData baseUrl = Inl TypeError) \<and>
   (XMLParser_parse W event_xml_options responseData = Inr jsonData \<and>
    lacks jsonData ''multistatus'' \<longrightarrow>
      parseEvents I W responseData baseUrl console = (Inl TypeError, console) \<and>
      parseEvents_nical P W responseData baseUrl console = (Inl TypeError, console)) \<and>
   (XMLParser_parse W calendar_xml_options responseData = Inr jsonData \<and>
    js_get jsonData ''multistatus'' = Inr ms \<and> lacks ms ''response'' \<longrightarrow>
      parseCalendars W responseData baseUrl = Inl TypeError) \<and>
   (XMLParser_parse W event_xml_options responseData = Inr jsonData \<and>
    js_get jsonData ''multistatus'' = Inr ms \<and> \<not> nullish ms \<and> lacks ms ''response'' \<longrightarrow>
      parseEvents I W responseData baseUrl console = (Inr [], console) \<and>
      parseEvents_nical P W responseData baseUrl console = (Inr [], console))"
proof (intro conjI impI)
  assume "XMLParser_parse W calendar_xml_options responseData = Inl e"
  then show "parseCalendars W responseData baseUrl = Inl e"
    by (simp add: parseCalendars_def)
next
  assume "XMLParser_parse W event_xml_options responseData = Inl e"
  then show "parseEvents I W responseData baseUrl console = (Inl e, console)"
    and "parseEvents_nical P W responseData baseUrl console = (Inl e, console)"
    by (simp_all add: parseEvents_def parseEvents_nical_def parseEvents_with_def)
next
  assume h: "XMLParser_parse W calendar_xml_options responseData = Inr jsonData \<and>
    lacks jsonData ''multistatus''"
  with lacks_get [of jsonData "''multistatus''"] show "parseCalendars W responseData baseUrl = Inl TypeError"
    by (auto simp: parseCalendars_def nullish_get)
next
  assume h: "XMLParser_parse W event_xml_options responseData = Inr jsonData \<and>
    lacks jsonData ''multistatus''"
  with lacks_get [of jsonData "''multistatus''"]
  show "parseEvents I W responseData baseUrl console = (Inl TypeError, console)"
    and "parseEvents_nical P W responseData baseUrl console = (Inl TypeError, console)"
    by (auto simp: parseEvents_def parseEvents_nical_def parseEvents_with_def nullish_get)
next
  assume h: "XMLParser_parse W calendar_xml_options responseData = Inr jsonData \<and>
    js_get jsonData ''multistatus'' = Inr ms \<and> lacks ms ''response''"
  with lacks_get [of ms "''response''"] show "parseCalendars W responseData baseUrl = Inl TypeError"
    by (auto simp: parseCalendars_def nullish_as_array calendar_of_nullish)
next
  assume h: "XMLParser_parse W event_xml_options responseData = Inr jsonData \<and>
    js_get jsonData ''multistatus'' = Inr ms \<and> \<not> nullish ms \<and> lacks ms ''response''"
  with lacks_response_cases [of ms]
  show "parseEvents I W responseData baseUrl console = (Inr [], console)"
    and "parseEvents_nical P W responseData baseUrl console = (Inr [], console)"
    by (auto simp: parseEvents_def parseEvents_nical_def parseEvents_with_def nullish_not_truthy)
qed

text \<open>
  Three documents: one the decoder rejects, one without a root, one with an empty
  \<^verbatim>\<open>multistatus\<close>.
\<close>

theorem structural_failures_propagate_witness:
  "XMLParser_parse (sample_web no_response_doc) calendar_xml_options ''garbage'' = Inl (Thrown ''parse error'') \<and>
   parseCalendars (sample_web no_response_doc) ''garbage'' None = Inl (Thrown ''parse error'') \<and>
   parseEvents (sample_icaljs [] whole_day_getters) (sample_web no_response_doc) ''garbage'' None [] =
     (Inl (Thrown ''parse error''), []) \<and>
   lacks (JObj []) ''multistatus'' \<and>
   parseCalendars (sample_web no_response_doc) ''no-root'' None = Inl TypeError \<and>
   parseEvents (sample_icaljs [] whole_day_getters) (sample_web no_response_doc) ''no-root'' None [] =
     (Inl TypeError, []) \<and>
   lacks (JStr []) ''response'' \<and>
   parseCalendars (sample_web no_response_doc) ''empty'' None = Inl TypeError \<and>
   parseEvents (sample_icaljs [] whole_day_getters) (sample_web no_response_doc) ''empty'' None [] =
     (Inr [], [])"
proof -
  let ?W = "sample_web no_response_doc"
  let ?I = "sample_icaljs [] whole_day_getters"
  have g1: "XMLParser_parse ?W calendar_xml_options ''garbage'' = Inl (Thrown ''parse error'')"
    and g2: "XMLParser_parse ?W event_xml_options ''garbage'' = Inl (Thrown ''parse error'')"
    and n1: "XMLParser_parse ?W calendar_xml_options ''no-root'' = Inr (JObj [])"
    and n2: "XMLParser_parse ?W event_xml_options ''no-root'' = Inr (JObj [])"
    and e1: "XMLParser_parse ?W calendar_xml_options ''empty'' = Inr (JObj [(''multistatus'', JStr [])])"
    and e2: "XMLParser_parse ?W event_xml_options ''empty'' = Inr (JObj [(''multistatus'', JStr [])])"
    by (simp_all add: sample_web_def table_decode_def table_parse_def no_response_doc_def)
  have l1: "lacks (JObj []) ''multistatus''" and l2: "lacks (JStr []) ''response''"
    and m: "js_get (JObj [(''multistatus'', JStr [])]) ''multistatus'' = Inr (JStr [])"
    and nn: "\<not> nullish (JStr [])"
    by (simp_all add: lacks_def)
  have a1: "parseCalendars ?W ''garbage'' None = Inl (Thrown ''parse error'')"
    by (rule structural_failures_propagate [THEN conjunct1, THEN mp, OF g1])
  have a2: "parseEvents ?I ?W ''garbage'' None [] = (Inl (Thrown ''parse error''), [])"
    by (rule structural_failures_propagate
        [THEN conjunct2, THEN conjunct1, THEN mp, OF g2, THEN conjunct1])
  have b1: "parseCalendars ?W ''no-root'' None = Inl TypeError"
    by (rule structural_failures_propagate
        [THEN conjunct2, THEN conjunct2, THEN conjunct1, THEN mp, OF conjI [OF n1 l1]])
  have b2: "parseEvents ?I ?W ''no-root'' None [] = (Inl TypeError, [])"
    by (rule structural_failures_propagate
        [THEN conjunct2, THEN conjunct2, THEN conjunct2, THEN conjunct1, THEN mp,
         OF conjI [OF n2 l1], THEN conjunct1])
  have c1: "parseCalendars ?W ''empty'' None = Inl TypeError"
    by (rule structural_failures_propagate
        [THEN conjunct2, THEN conjunct2, THEN conjunct2, THEN conjunct2, THEN conjunct1, THEN mp,
         OF conjI [OF e1 conjI [OF m l2]]])
  have c2: "parseEvents ?I ?W ''empty'' None [] = (Inr [], [])"
    by (rule structural_failures_propagate
        [THEN conjunct2, THEN conjunct2, THEN conjunct2, THEN conjunct2, THEN conjunct2, THEN mp,
         OF conjI [OF e2 conjI [OF m conjI [OF nn l2]]], THEN conjunct1])
  from g1 a1 a2 l1 b1 b2 l2 c1 c2 show ?thesis by (intro conjI)
qed

subsection \<open>One failing record\<close>

text \<open>
  What the \<^verbatim>\<open>try\<close> block does isolate: a response record that reaches the block and
  whose calendar text fails to parse, or whose field extraction throws, is caught, and
  \<^verbatim>\<open>parseEvents\<close> returns what it returns for the input without this record. With nine
  other records that each push an event, it returns nine events. This holds for both
  variants of the parser.
\<close>

lemma parseEvents_isolates_text_record:
  assumes "XMLParser_parse W event_xml_options responseData = Inr jsonData"
    and "js_get jsonData ''multistatus'' = Inr ms"
    and "js_get ms ''response'' = Inr (JArr (before @ bad # after))"
  shows
    "(try_block_throws (try_body_icaljs I W baseUrl) bad e \<longrightarrow>
        fst (parseEvents I W responseData baseUrl console) =
        fst (events_loop (event_step (try_body_icaljs I W baseUrl)) (before @ after) [] console) \<and>
        (length (before @ after) = 9 \<and>
         list_all (\<lambda>r. is_Pushed (event_step (try_body_icaljs I W baseUrl) r)) (before @ after) \<longrightarrow>
           (\<exists>evs. fst (parseEvents I W responseData baseUrl console) = Inr evs \<and> length evs = 9))) \<and>
     (try_block_throws (try_body_nical P W baseUrl) bad e \<longrightarrow>
        fst (parseEvents_nical P W responseData baseUrl console) =
        fst (events_loop (event_step (try_body_nical P W baseUrl)) (before @ after) [] console) \<and>
        (length (before @ after) = 9 \<and>
         list_all (\<lambda>r. is_Pushed (event_step (try_body_nical P W baseUrl) r)) (before @ after) \<longrightarrow>
           (\<exists>evs. fst (parseEvents_nical P W responseData baseUrl console) = Inr evs \<and>
                  length evs = 9)))"
  unfolding parseEvents_def parseEvents_nical_def
  using parseEvents_with_skips [OF assms, of "try_body_icaljs I W baseUrl" e console]
    parseEvents_with_nine [OF assms, of "try_body_icaljs I W baseUrl" e console]
    parseEvents_with_skips [OF assms, of "try_body_nical P W baseUrl" e console]
    parseEvents_with_nine [OF assms, of "try_body_nical P W baseUrl" e console]
  by blast

text \<open>Ten records, of which the fourth has a calendar text that the library rejects.\<close>

lemma parseEvents_isolates_text_record_example:
  "try_block_throws
     (try_body_icaljs (sample_icaljs [(''ICS'', whole_day_vcalendar)] whole_day_getters)
        (sample_web ten_records_doc) None)
     bad_record (Thrown ''parse error'') \<and>
   try_block_throws
     (try_body_nical (table_parse [(''ICS'', [whole_day_nical])]) (sample_web ten_records_doc) None)
     bad_record (Thrown ''parse error'') \<and>
   (\<exists>evs. fst (parseEvents (sample_icaljs [(''ICS'', whole_day_vcalendar)] whole_day_getters)
                 (sample_web ten_records_doc) ''ten'' None []) = Inr evs \<and> length evs = 9) \<and>
   (\<exists>evs. fst (parseEvents_nical (table_parse [(''ICS'', [whole_day_nical])])
                 (sample_web ten_records_doc) ''ten'' None []) = Inr evs \<and> length evs = 9)"
proof -
  let ?W = "sample_web ten_records_doc"
  let ?I = "sample_icaljs [(''ICS'', whole_day_vcalendar)] whole_day_getters"
  let ?P = "table_parse [(''ICS'', [whole_day_nical])] :: string \<Rightarrow> error + nical_component list"
  let ?before = "[good_record, good_record, good_record]"
  let ?after = "[good_record, good_record, good_record, good_record, good_record, good_record]"
  have d: "XMLParser_parse ?W event_xml_options ''ten'' =
      Inr (multistatus_of (JArr (?before @ bad_record # ?after)))"
    by (simp add: sample_web_def table_decode_def table_parse_def ten_records_doc_def)
  have m: "js_get (multistatus_of (JArr (?before @ bad_record # ?after))) ''multistatus'' =
      Inr (JObj [(''response'', JArr (?before @ bad_record # ?after))])"
    by (simp add: multistatus_of_def)
  have r: "js_get (JObj [(''response'', JArr (?before @ bad_record # ?after))]) ''response'' =
      Inr (JArr (?before @ bad_record # ?after))"
    by simp
  have t1: "try_block_throws (try_body_icaljs ?I ?W None) bad_record (Thrown ''parse error'')"
    by code_simp
  have t2: "try_block_throws (try_body_nical ?P ?W None) bad_record (Thrown ''parse error'')"
    by code_simp
  have g1: "is_Pushed (event_step (try_body_icaljs ?I ?W None) good_record)"
    by code_simp
  have g2: "is_Pushed (event_step (try_body_nical ?P ?W None) good_record)"
    by code_simp
  have l: "length (?before @ ?after) = 9"
    by simp
  have a1: "list_all (\<lambda>r. is_Pushed (event_step (try_body_icaljs ?I ?W None) r)) (?before @ ?after)"
    using g1 by simp
  have a2: "list_all (\<lambda>r. is_Pushed (event_step (try_body_nical ?P ?W None) r)) (?before @ ?after)"
    using g2 by simp
  from parseEvents_isolates_text_record [OF d m r, of ?I None "Thrown ''parse error''" "[]" ?P]
    t1 t2 l a1 a2
  show ?thesis by blast
qed

text \<open>
  A record with two propstats is passed over, in both variants, though its first
  propstat has the calendar text: \<^verbatim>\<open>obj["propstat"]\<close> is an array then, and its \<^verbatim>\<open>prop\<close>
  is \<^verbatim>\<open>undefined\<close>. (\<^verbatim>\<open>parseCalendars\<close> searches the array for the propstat with status
  200 OK.)
\<close>

lemma two_propstat_record_skipped:
  "event_step
     (try_body_icaljs (sample_icaljs [(''ICS'', whole_day_vcalendar)] whole_day_getters)
        (sample_web ten_records_doc) None)
     two_propstat_record = Continue \<and>
   event_step
     (try_body_nical (table_parse [(''ICS'', [whole_day_nical])]) (sample_web ten_records_doc) None)
     two_propstat_record = Continue \<and>
   selected_prop (sample_web ten_records_doc) two_propstat_record =
     Inr (Some (JObj [(''getetag'', JStr ''e4''), (''calendar-data'', JStr ''ICS'')]))"
  by code_simp

text \<open>
  C2. The claim fails on the code. Of ten response records, nine hold a valid event and
  the fourth has the malformed calendar data \<^verbatim>\<open>12345\<close>, which the decoder returns as a
  number. \<^verbatim>\<open>rawCalendarData.replace\<close> (line 133) stands before \<^verbatim>\<open>try\<close> and is not a
  function on a number: the TypeError leaves \<^verbatim>\<open>parseEvents\<close>, in both variants, with no
  event returned and nothing written to the console. The same report with a fourth
  record whose calendar data is a text that does not parse returns the nine events.
\<close>

theorem non_text_calendar_data_rejects_batch:
  "parseEvents (sample_icaljs [(''ICS'', whole_day_vcalendar)] whole_day_getters)
     (sample_web ten_numeric_doc) ''ten'' None [] = (Inl TypeError, []) \<and>
   parseEvents_nical (table_parse [(''ICS'', [whole_day_nical])])
     (sample_web ten_numeric_doc) ''ten'' None [] = (Inl TypeError, []) \<and>
   map_sum id length
     (fst (parseEvents (sample_icaljs [(''ICS'', whole_day_vcalendar)] whole_day_getters)
            (sample_web ten_records_doc) ''ten'' None [])) = Inr 9 \<and>
   map_sum id length
     (fst (parseEvents_nical (table_parse [(''ICS'', [whole_day_nical])])
            (sample_web ten_records_doc) ''ten'' None [])) = Inr 9"
  by code_simp

subsection \<open>The end of a whole-day event\<close>

text \<open>
  On \<^verbatim>\<open>ical.js\<close> the end is the raw end less one day when the start is a date, and the
  raw end otherwise; the raw end is the start when the event has no end.
\<close>

lemma icaljs_end_adjusted:
  "try_body_icaljs I W b obj eventData cleaned = Inr (Some ev) \<Longrightarrow>
   \<exists>vcalendar vevent sd.
     ICAL_parse I cleaned = Inr vcalendar \<and>
     getFirstSubcomponent vcalendar ''vevent'' = Some vevent \<and>
     ev_startDate (ICAL_Event I vevent) = Some sd \<and> wholeDay ev = isDate sd \<and>
     start ev = toUnixTime sd * 1000 \<and>
     end_instant ev =
       adjustedEnd (wholeDay ev)
         (case ev_endDate (ICAL_Event I vevent) of
            Some ed \<Rightarrow> toUnixTime ed * 1000
          | None \<Rightarrow> start ev)"
  by (auto simp: try_body_icaljs_def Let_def split: sum.split_asm option.split_asm)

text \<open>On \<^verbatim>\<open>node-ical\<close> the end is the library's end, whole day or not.\<close>

lemma nical_end_not_adjusted:
  "try_body_nical P W b obj eventData cleaned = Inr (Some ev) \<Longrightarrow>
   \<exists>jcalData event en.
     P cleaned = Inr jcalData \<and>
     find (\<lambda>v. nc_type v = JStr ''VEVENT'') jcalData = Some event \<and>
     nc_end event = Some en \<and> wholeDay ev = (nc_datetype event = JStr ''date'') \<and>
     end_instant ev = date_ms en"
  by (auto simp: try_body_nical_def Let_def split: sum.split_asm option.split_asm)

text \<open>
  C1. The claim holds on \<^verbatim>\<open>ical.js\<close> and fails on \<^verbatim>\<open>node-ical\<close>. For the whole-day event
  from 2024-01-10 with the exclusive end 2024-01-12, the variant on \<^verbatim>\<open>node-ical\<close>
  returns \<open>wholeDay = True\<close> and the raw end 1705017600000 (2024-01-12); the variant on
  \<^verbatim>\<open>ical.js\<close> returns the end one day earlier (2024-01-11).
\<close>

theorem whole_day_end_differs_between_variants:
  "map_sum id (map wholeDay)
     (fst (parseEvents_nical (table_parse [(''ICS'', [whole_day_nical])])
            (sample_web (one_event_doc (JStr ''e1''))) ''doc'' None [])) = Inr [True] \<and>
   map_sum id (map end_instant)
     (fst (parseEvents_nical (table_parse [(''ICS'', [whole_day_nical])])
            (sample_web (one_event_doc (JStr ''e1''))) ''doc'' None [])) = Inr [1705017600000] \<and>
   map_sum id (map wholeDay)
     (fst (parseEvents (sample_icaljs [(''ICS'', whole_day_vcalendar)] whole_day_getters)
            (sample_web (one_event_doc (JStr ''e1''))) ''doc'' None [])) = Inr [True] \<and>
   map_sum id (map end_instant)
     (fst (parseEvents (sample_icaljs [(''ICS'', whole_day_vcalendar)] whole_day_getters)
            (sample_web (one_event_doc (JStr ''e1''))) ''doc'' None [])) =
     Inr [1705017600000 - 86400000]"
  by code_simp

subsection \<open>The etag of an event\<close>







subsection \<open>Alarms\<close>

lemma toString_opt_nullish [simp]:
  "toString_opt JNull = JUndefined" "toString_opt JUndefined = JUndefined"
  by (simp_all add: toString_opt_def)

lemma alarm_of_valarm_action:
  "alarm_of_valarm valarm = Some a \<Longrightarrow> getFirstPropertyValue valarm ''action'' = JStr (action a)"
  by (auto simp: alarm_of_valarm_def Let_def split: if_splits)

lemma alarm_of_nical_action:
  "alarm_of_nical valarm = Some a \<Longrightarrow> va_action valarm = JStr (action a)"
  by (auto simp: alarm_of_nical_def Let_def split: if_splits)

lemma try_body_icaljs_alarms:
  "try_body_icaljs I W b obj eventData cleaned = Inr (Some ev) \<Longrightarrow>
   \<exists>vevent. alarms ev = alarms_loop alarm_of_valarm (getAllSubcomponents vevent ''valarm'') []"
  by (auto simp: try_body_icaljs_def Let_def split: sum.splits option.splits)

lemma try_body_nical_alarms:
  "try_body_nical P W b obj eventData cleaned = Inr (Some ev) \<Longrightarrow>
   alarms ev = [] \<or> (\<exists>valarms. alarms ev = alarms_loop alarm_of_nical valarms [])"
  by (auto simp: try_body_nical_def Let_def split: sum.splits option.splits)

text \<open>
  C7. A \<^verbatim>\<open>VALARM\<close> without a trigger property yields no alarm, whatever its action, and
  the alarms of the event are those of the event without this \<^verbatim>\<open>VALARM\<close>; on
  \<^verbatim>\<open>node-ical\<close>, the same for an alarm whose \<^verbatim>\<open>trigger\<close> is \<^verbatim>\<open>undefined\<close>.
\<close>

theorem alarm_without_trigger_dropped:
  "(getFirstProperty valarm ''trigger'' = None \<longrightarrow>
      alarm_of_valarm valarm = None \<and>
      alarms_loop alarm_of_valarm (getAllSubcomponents (Component n ps (xs @ valarm # ys)) ''valarm'') [] =
      alarms_loop alarm_of_valarm (getAllSubcomponents (Component n ps (xs @ ys)) ''valarm'') []) \<and>
   (va_trigger nvalarm = JUndefined \<longrightarrow>
      alarm_of_nical nvalarm = None \<and>
      alarms_loop alarm_of_nical (nxs @ nvalarm # nys) [] = alarms_loop alarm_of_nical (nxs @ nys) [])"
proof -
  have a: "alarm_of_valarm valarm = None" if "getFirstProperty valarm ''trigger'' = None"
    using that by (simp add: alarm_of_valarm_def getFirstPropertyValue_def Let_def)
  have b: "alarm_of_nical nvalarm = None" if "va_trigger nvalarm = JUndefined"
    using that by (simp add: alarm_of_nical_def Let_def)
  show ?thesis
    using a b by (auto simp: getAllSubcomponents_def alarms_loop_map_filter List.map_filter_def)
qed

text \<open>
  A display alarm without a trigger beside the e-mail alarm, and the e-mail alarm of
  \<^verbatim>\<open>node-ical\<close> with its trigger taken away.
\<close>

theorem alarm_without_trigger_dropped_witness:
  "getFirstProperty (Component ''valarm'' [(''action'', \<lparr>parameters = [], prop_values = [JStr ''DISPLAY'']\<rparr>)] [])
     ''trigger'' = None \<and>
   alarm_of_valarm (Component ''valarm'' [(''action'', \<lparr>parameters = [], prop_values = [JStr ''DISPLAY'']\<rparr>)] [])
     = None \<and>
   alarms_loop alarm_of_valarm
     (getAllSubcomponents
        (Component ''vevent'' []
           ([email_valarm] @
            Component ''valarm'' [(''action'', \<lparr>parameters = [], prop_values = [JStr ''DISPLAY'']\<rparr>)] [] # []))
        ''valarm'') [] =
   alarms_loop alarm_of_valarm
     (getAllSubcomponents (Component ''vevent'' [] ([email_valarm] @ [])) ''valarm'') [] \<and>
   va_trigger (email_nical\<lparr>va_trigger := JUndefined\<rparr>) = JUndefined \<and>
   alarm_of_nical (email_nical\<lparr>va_trigger := JUndefined\<rparr>) = None"
  using alarm_without_trigger_dropped
    [where valarm = "Component ''valarm'' [(''action'', \<lparr>parameters = [], prop_values = [JStr ''DISPLAY'']\<rparr>)] []"
       and nvalarm = "email_nical\<lparr>va_trigger := JUndefined\<rparr>" and n = "''vevent''" and ps = "[]"
       and xs = "[email_valarm]" and ys = "[]" and nxs = "[]" and nys = "[]"]
  by (simp add: getFirstProperty_def)

text \<open>
  C10. A \<^verbatim>\<open>VALARM\<close> whose action is not exactly \<^verbatim>\<open>DISPLAY\<close>, \<^verbatim>\<open>EMAIL\<close> or \<^verbatim>\<open>AUDIO\<close> yields no
  alarm, trigger or not. Every alarm of every event that \<^verbatim>\<open>parseEvents\<close> returns carries
  one of the three tags, and comes from a \<^verbatim>\<open>VALARM\<close> whose action is that tag. This holds
  for both variants.
\<close>

theorem alarm_action_is_one_of_three:
  "(getFirstPropertyValue valarm ''action'' \<notin> {JStr ''DISPLAY'', JStr ''EMAIL'', JStr ''AUDIO''} \<longrightarrow>
      alarm_of_valarm valarm = None) \<and>
   (va_action nvalarm \<notin> {JStr ''DISPLAY'', JStr ''EMAIL'', JStr ''AUDIO''} \<longrightarrow>
      alarm_of_nical nvalarm = None) \<and>
   (fst (parseEvents I W responseData baseUrl console) = Inr evs \<and> ev \<in> set evs \<and> a \<in> set (alarms ev) \<longrightarrow>
      action a \<in> {''DISPLAY'', ''EMAIL'', ''AUDIO''} \<and>
      (\<exists>v. alarm_of_valarm v = Some a \<and> getFirstPropertyValue v ''action'' = JStr (action a))) \<and>
   (fst (parseEvents_nical P W responseData baseUrl console) = Inr nevs \<and> nev \<in> set nevs \<and>
    na \<in> set (alarms nev) \<longrightarrow>
      action na \<in> {''DISPLAY'', ''EMAIL'', ''AUDIO''} \<and>
      (\<exists>v. alarm_of_nical v = Some na \<and> va_action v = JStr (action na)))"
proof (intro conjI impI)
  assume "getFirstPropertyValue valarm ''action'' \<notin> {JStr ''DISPLAY'', JStr ''EMAIL'', JStr ''AUDIO''}"
  then show "alarm_of_valarm valarm = None" by (simp add: alarm_of_valarm_def Let_def)
next
  assume "va_action nvalarm \<notin> {JStr ''DISPLAY'', JStr ''EMAIL'', JStr ''AUDIO''}"
  then show "alarm_of_nical nvalarm = None" by (simp add: alarm_of_nical_def Let_def)
next
  assume "fst (parseEvents I W responseData baseUrl console) = Inr evs \<and> ev \<in> set evs \<and> a \<in> set (alarms ev)"
  show "action a \<in> {''DISPLAY'', ''EMAIL'', ''AUDIO''}" by (cases a) simp_all
next
  assume h: "fst (parseEvents I W responseData baseUrl console) = Inr evs \<and> ev \<in> set evs \<and> a \<in> set (alarms ev)"
  then obtain obj eventData cleaned where
    "try_body_icaljs I W baseUrl obj eventData cleaned = Inr (Some ev)"
    using parseEvents_with_mem [of "try_body_icaljs I W baseUrl" W responseData console evs ev]
    by (auto simp: parseEvents_def)
  from try_body_icaljs_alarms [OF this] h obtain v where "alarm_of_valarm v = Some a"
    using alarms_loop_mem by fastforce
  then show "\<exists>v. alarm_of_valarm v = Some a \<and> getFirstPropertyValue v ''action'' = JStr (action a)"
    using alarm_of_valarm_action by blast
next
  assume "fst (parseEvents_nical P W responseData baseUrl console) = Inr nevs \<and> nev \<in> set nevs \<and>
    na \<in> set (alarms nev)"
  show "action na \<in> {''DISPLAY'', ''EMAIL'', ''AUDIO''}" by (cases na) simp_all
next
  assume h: "fst (parseEvents_nical P W responseData baseUrl console) = Inr nevs \<and> nev \<in> set nevs \<and>
    na \<in> set (alarms nev)"
  then obtain obj eventData cleaned where
    "try_body_nical P W baseUrl obj eventData cleaned = Inr (Some nev)"
    using parseEvents_with_mem [of "try_body_nical P W baseUrl" W responseData console nevs nev]
    by (auto simp: parseEvents_nical_def)
  from try_body_nical_alarms [OF this] h obtain v where "alarm_of_nical v = Some na"
    using alarms_loop_mem by fastforce
  then show "\<exists>v. alarm_of_nical v = Some na \<and> va_action v = JStr (action na)"
    using alarm_of_nical_action by blast
qed

text \<open>
  An alarm with the action \<^verbatim>\<open>PROCEDURE\<close> and a trigger yields nothing; the event that
  carries it beside the e-mail alarm has the e-mail alarm alone.
\<close>

theorem alarm_action_is_one_of_three_witness:
  "getFirstPropertyValue procedure_valarm ''action'' \<notin> {JStr ''DISPLAY'', JStr ''EMAIL'', JStr ''AUDIO''} \<and>
   alarm_of_valarm procedure_valarm = None \<and>
   va_action (email_nical\<lparr>va_action := JStr ''PROCEDURE''\<rparr>) \<notin>
     {JStr ''DISPLAY'', JStr ''EMAIL'', JStr ''AUDIO''} \<and>
   alarm_of_nical (email_nical\<lparr>va_action := JStr ''PROCEDURE''\<rparr>) = None \<and>
   map_sum id (map (map action \<circ> alarms))
     (fst (parseEvents (sample_icaljs [(''ICS'', alarm_vcalendar)] whole_day_getters)
            (sample_web (one_event_doc (JStr ''e1''))) ''doc'' None [])) = Inr [[''EMAIL'']] \<and>
   action (hd (alarms (hd (projr
     (fst (parseEvents (sample_icaljs [(''ICS'', alarm_vcalendar)] whole_day_getters)
            (sample_web (one_event_doc (JStr ''e1''))) ''doc'' None [])))))) \<in>
     {''DISPLAY'', ''EMAIL'', ''AUDIO''} \<and>
   action (hd (alarms (hd (projr
     (fst (parseEvents_nical (table_parse [(''ICS'', [alarm_nical])])
            (sample_web (one_event_doc (JStr ''e1''))) ''doc'' None [])))))) \<in>
     {''DISPLAY'', ''EMAIL'', ''AUDIO''}"
proof -
  let ?I = "sample_icaljs [(''ICS'', alarm_vcalendar)] whole_day_getters"
  let ?P = "table_parse [(''ICS'', [alarm_nical])] :: string \<Rightarrow> error + nical_component list"
  let ?W = "sample_web (one_event_doc (JStr ''e1''))"
  let ?evs = "projr (fst (parseEvents ?I ?W ''doc'' None []))"
  let ?nevs = "projr (fst (parseEvents_nical ?P ?W ''doc'' None []))"
  have h1: "getFirstPropertyValue procedure_valarm ''action'' \<notin>
      {JStr ''DISPLAY'', JStr ''EMAIL'', JStr ''AUDIO''}"
    by code_simp
  have h2: "va_action (email_nical\<lparr>va_action := JStr ''PROCEDURE''\<rparr>) \<notin>
      {JStr ''DISPLAY'', JStr ''EMAIL'', JStr ''AUDIO''}"
    by simp
  have h3: "fst (parseEvents ?I ?W ''doc'' None []) = Inr ?evs \<and> hd ?evs \<in> set ?evs \<and>
      hd (alarms (hd ?evs)) \<in> set (alarms (hd ?evs))"
    by code_simp
  have h4: "fst (parseEvents_nical ?P ?W ''doc'' None []) = Inr ?nevs \<and> hd ?nevs \<in> set ?nevs \<and>
      hd (alarms (hd ?nevs)) \<in> set (alarms (hd ?nevs))"
    by code_simp
  have h5: "map_sum id (map (map action \<circ> alarms)) (fst (parseEvents ?I ?W ''doc'' None [])) =
      Inr [[''EMAIL'']]"
    by code_simp
  from alarm_action_is_one_of_three
    [where valarm = procedure_valarm and nvalarm = "email_nical\<lparr>va_action := JStr ''PROCEDURE''\<rparr>"
       and I = ?I and W = ?W and P = ?P and responseData = "''doc''" and baseUrl = None
       and console = "[]" and evs = ?evs and ev = "hd ?evs" and a = "hd (alarms (hd ?evs))"
       and nevs = ?nevs and nev = "hd ?nevs" and na = "hd (alarms (hd ?nevs))"]
    h1 h2 h3 h4 h5
  show ?thesis by blast
qed

text \<open>
  On \<^verbatim>\<open>ical.js\<close> the attendees of an e-mail alarm are the first values of all its
  attendee properties that are strings, in order; on \<^verbatim>\<open>node-ical\<close> there is never more
  than one.
\<close>

lemma icaljs_attendees:
  "alarm_of_valarm valarm = Some (EMAIL t d s as) \<Longrightarrow>
   as = filter is_string (map getFirstValue (getAllProperties valarm ''attendee''))"
  by (auto simp: alarm_of_valarm_def Let_def split: if_splits)

lemma nical_attendees_at_most_one:
  "alarm_of_nical valarm = Some (EMAIL t d s as) \<Longrightarrow> length as \<le> 1"
  by (auto simp: alarm_of_nical_def Let_def split: if_splits)

text \<open>
  C4. The claim holds on \<^verbatim>\<open>ical.js\<close> and fails on \<^verbatim>\<open>node-ical\<close>. For an e-mail alarm
  with the trigger \<^verbatim>\<open>-PT15M\<close> and two attendees, the variant on \<^verbatim>\<open>node-ical\<close> returns one
  attendee, the two addresses joined by a comma; the variant on \<^verbatim>\<open>ical.js\<close> returns the
  two addresses.
\<close>

theorem email_attendees_differ_between_variants:
  "map_option attendees (alarm_of_nical email_nical) =
     Some [JStr ''mailto:a@example.org,mailto:b@example.org''] \<and>
   map_option attendees (alarm_of_valarm email_valarm) =
     Some [JStr ''mailto:a@example.org'', JStr ''mailto:b@example.org'']"
  by code_simp

end
